theory Spec2Isabelle
  imports Complex_Main
begin

section \<open>Python values and the operations the tools apply to them\<close>

text \<open>
  The tools of \<^verbatim>\<open>mcp_main.py\<close> work on whatever \<^verbatim>\<open>response.json()\<close> returns, so
  the values are those of decoded JSON. Python's \<^verbatim>\<open>None\<close> is \<open>JNull\<close>; a number is a
  rational (the operations below do not tell an int from a float); a dict is the list of
  its items in insertion order, with distinct keys.
\<close>

datatype json =
    JNull
  | JBool bool
  | JNum rat
  | JStr string
  | JArr "json list"
  | JObj "(string \<times> json) list"

text \<open>Every exception the modelled code can raise is a value; \<open>Inl\<close> carries it.\<close>

datatype error =
    KeyError | TypeError | AttributeError | ValueError | IndexError | ZeroDivisionError

definition rbind :: "error + 'a \<Rightarrow> ('a \<Rightarrow> error + 'b) \<Rightarrow> error + 'b" where
  "rbind m f = (case m of Inl e \<Rightarrow> Inl e | Inr x \<Rightarrow> f x)"

text \<open>True division \<^verbatim>\<open>a / b\<close>, on exact rationals in place of floats.\<close>

definition py_div :: "rat \<Rightarrow> rat \<Rightarrow> error + rat" where
  "py_div a b = (if b = 0 then Inl ZeroDivisionError else Inr (a / b))"

text \<open>Truth value testing (\<^verbatim>\<open>if x\<close>, \<^verbatim>\<open>not x\<close>, \<^verbatim>\<open>x or y\<close>).\<close>

fun truthy :: "json \<Rightarrow> bool" where
  "truthy JNull = False"
| "truthy (JBool b) = b"
| "truthy (JNum q) = (q \<noteq> 0)"
| "truthy (JStr s) = (s \<noteq> [])"
| "truthy (JArr xs) = (xs \<noteq> [])"
| "truthy (JObj kvs) = (kvs \<noteq> [])"

text \<open>\<^verbatim>\<open>x or []\<close>\<close>

definition or_empty :: "json \<Rightarrow> json" where
  "or_empty x = (if truthy x then x else JArr [])"

text \<open>\<^verbatim>\<open>len(x)\<close>: defined on str, list and dict, a TypeError on the rest.\<close>

fun py_len :: "json \<Rightarrow> error + nat" where
  "py_len (JStr s) = Inr (length s)"
| "py_len (JArr xs) = Inr (length xs)"
| "py_len (JObj kvs) = Inr (length kvs)"
| "py_len _ = Inl TypeError"

text \<open>
  \<^verbatim>\<open>for v in x\<close>: a list yields its elements, a dict its keys, a str its characters;
  nothing else is iterable.
\<close>

fun py_iter :: "json \<Rightarrow> error + json list" where
  "py_iter (JArr xs) = Inr xs"
| "py_iter (JObj kvs) = Inr (map (\<lambda>kv. JStr (fst kv)) kvs)"
| "py_iter (JStr s) = Inr (map (\<lambda>c. JStr [c]) s)"
| "py_iter _ = Inl TypeError"

text \<open>
  \<^verbatim>\<open>x[:n]\<close>: lists and strings are sliced; a dict refuses a slice as a key
  (a TypeError before Python 3.12, a KeyError from it on) and the rest is not
  subscriptable.
\<close>

fun py_slice :: "nat \<Rightarrow> json \<Rightarrow> error + json" where
  "py_slice n (JArr xs) = Inr (JArr (take n xs))"
| "py_slice n (JStr s) = Inr (JStr (take n s))"
| "py_slice n _ = Inl TypeError"

text \<open>\<^verbatim>\<open>x['k']\<close>: a missing key of a dict is a KeyError; only a dict takes a str key.\<close>

fun py_item :: "json \<Rightarrow> string \<Rightarrow> error + json" where
  "py_item (JObj kvs) k = (case map_of kvs k of None \<Rightarrow> Inl KeyError | Some v \<Rightarrow> Inr v)"
| "py_item _ k = Inl TypeError"

text \<open>\<^verbatim>\<open>x.get('k', d)\<close>: only a dict has the method.\<close>

fun py_get :: "json \<Rightarrow> string \<Rightarrow> json \<Rightarrow> error + json" where
  "py_get (JObj kvs) k d = Inr (case map_of kvs k of None \<Rightarrow> d | Some v \<Rightarrow> v)"
| "py_get _ k d = Inl AttributeError"

text \<open>\<^verbatim>\<open>x[0]\<close>; the keys of a decoded JSON object are strings, so a dict has no key 0.\<close>

fun py_first :: "json \<Rightarrow> error + json" where
  "py_first (JArr xs) = (case xs of [] \<Rightarrow> Inl IndexError | x # _ \<Rightarrow> Inr x)"
| "py_first (JStr s) = (case s of [] \<Rightarrow> Inl IndexError | c # _ \<Rightarrow> Inr (JStr [c]))"
| "py_first (JObj kvs) = Inl KeyError"
| "py_first _ = Inl TypeError"

text \<open>\<^verbatim>\<open>s.replace('Z', '+00:00')\<close> replaces every \<open>Z\<close>; only a str has the method.\<close>

fun replace_Z :: "string \<Rightarrow> string" where
  "replace_Z [] = []"
| "replace_Z (c # cs) = (if c = CHR ''Z'' then ''+00:00'' @ replace_Z cs else c # replace_Z cs)"

fun py_replace_Z :: "json \<Rightarrow> error + string" where
  "py_replace_Z (JStr s) = Inr (replace_Z s)"
| "py_replace_Z _ = Inl AttributeError"

subsection \<open>Dates and times\<close>

text \<open>
  A \<^verbatim>\<open>datetime\<close> is naive or timezone-aware; either way it is a count of microseconds
  (for an aware one, of its UTC instant). A \<^verbatim>\<open>timedelta\<close> is a count of microseconds.
  Subtracting a naive from an aware datetime, or the reverse, is a TypeError.
\<close>

datatype datetime = Naive int | Aware int

fun dt_sub :: "datetime \<Rightarrow> datetime \<Rightarrow> error + int" where
  "dt_sub (Aware a) (Aware b) = Inr (a - b)"
| "dt_sub (Naive a) (Naive b) = Inr (a - b)"
| "dt_sub _ _ = Inl TypeError"

definition day_us :: int where
  "day_us = 86400000000"

text \<open>\<^verbatim>\<open>td.days\<close> rounds towards minus infinity, as \<open>div\<close> on \<open>int\<close> does.\<close>

definition td_days :: "int \<Rightarrow> int" where
  "td_days d = d div day_us"

text \<open>\<^verbatim>\<open>td.total_seconds() / 3600\<close>\<close>

definition td_hours :: "int \<Rightarrow> rat" where
  "td_hours d = of_int d / 3600000000"

text \<open>
  The standard library's parsers and the clock are parameters of the model:
  \<open>fromisoformat\<close> is \<^verbatim>\<open>datetime.fromisoformat\<close> and \<open>strptime\<close> is
  \<^verbatim>\<open>datetime.strptime(s, "%Y-%m-%d")\<close> read as a day number, both with \<open>None\<close> where
  Python raises ValueError; \<open>strftime\<close> is \<^verbatim>\<open>.strftime("%Y-%m-%d")\<close> of an instant;
  \<open>now\<close> is \<^verbatim>\<open>datetime.now().replace(tzinfo=timezone.utc)\<close> in microseconds.
\<close>

record env =
  fromisoformat :: "string \<Rightarrow> datetime option"
  strptime :: "string \<Rightarrow> int option"
  strftime :: "int \<Rightarrow> string"
  now :: int

definition parse_iso :: "env \<Rightarrow> string \<Rightarrow> error + datetime" where
  "parse_iso E s = (case fromisoformat E s of None \<Rightarrow> Inl ValueError | Some t \<Rightarrow> Inr t)"

definition parse_ymd :: "env \<Rightarrow> string \<Rightarrow> error + int" where
  "parse_ymd E s = (case strptime E s of None \<Rightarrow> Inl ValueError | Some d \<Rightarrow> Inr d)"

text \<open>\<^verbatim>\<open>datetime.fromisoformat(v.replace('Z', '+00:00'))\<close>\<close>

definition parse_ts :: "env \<Rightarrow> json \<Rightarrow> error + datetime" where
  "parse_ts E v = rbind (py_replace_Z v) (parse_iso E)"

section \<open>The remote fetcher: \<^verbatim>\<open>make_gitlab_request\<close>\<close>

text \<open>
  What \<^verbatim>\<open>client.get\<close> does is the input: it raises (a transport error, or a timeout
  after 30 seconds) or answers with a status and a body, which \<^verbatim>\<open>response.json()\<close>
  decodes (\<open>None\<close>: the body is not JSON, and decoding raises).
  \<^verbatim>\<open>raise_for_status\<close> of httpx raises unless the status is 2xx. The
  \<^verbatim>\<open>except Exception\<close> branch prints and returns \<^verbatim>\<open>None\<close>; the printed line is not
  modelled.
\<close>

datatype http_outcome =
    TransportError
  | Timeout
  | Response nat "json option"

fun make_gitlab_request :: "http_outcome \<Rightarrow> json" where
  "make_gitlab_request TransportError = JNull"
| "make_gitlab_request Timeout = JNull"
| "make_gitlab_request (Response status body) =
     (if 200 \<le> status \<and> status < 300
      then (case body of None \<Rightarrow> JNull | Some j \<Rightarrow> j)
      else JNull)"

section \<open>DORA metrics: \<^verbatim>\<open>get_dora_metrics\<close>\<close>

datatype level = Elite | High | Medium | Low

text \<open>
  The report is the record of the values the function interpolates into its text; the
  four levels stand for the four Russian labels of the source.
\<close>

record dora_report =
  start_date :: string
  end_date :: string
  days_period :: int
  deployment_freq :: rat
  avg_lead_time :: rat
  avg_restore_time :: rat
  change_failure_rate :: rat
  devops_level :: level
  total_deployments :: nat
  failed_deployments :: nat
  releases_count :: nat
  merged_mr_count :: nat
  incidents_count :: nat

text \<open>The loop over \<^verbatim>\<open>merge_requests[:50]\<close> that fills \<^verbatim>\<open>lead_times\<close>.\<close>

fun lead_times :: "env \<Rightarrow> json list \<Rightarrow> error + int list" where
  "lead_times E [] = Inr []"
| "lead_times E (mr # rest) =
     rbind (py_item mr ''created_at'') (\<lambda>c.
     rbind (parse_ts E c) (\<lambda>created_at.
     rbind (py_get mr ''merged_at'' JNull) (\<lambda>m.
     rbind (if truthy m
            then rbind (py_item mr ''merged_at'') (\<lambda>v.
                 rbind (parse_ts E v) (\<lambda>merged_at.
                 rbind (dt_sub merged_at created_at) (\<lambda>d. Inr [td_days d])))
            else Inr []) (\<lambda>this.
     rbind (lead_times E rest) (\<lambda>more. Inr (this @ more))))))"

text \<open>The loop over \<^verbatim>\<open>incidents\<close> that fills \<^verbatim>\<open>restore_times\<close> (in hours).\<close>

fun restore_times :: "env \<Rightarrow> json list \<Rightarrow> error + rat list" where
  "restore_times E [] = Inr []"
| "restore_times E (incident # rest) =
     rbind (py_item incident ''created_at'') (\<lambda>c.
     rbind (parse_ts E c) (\<lambda>created_at.
     rbind (py_get incident ''closed_at'' JNull) (\<lambda>m.
     rbind (if truthy m
            then rbind (py_item incident ''closed_at'') (\<lambda>v.
                 rbind (parse_ts E v) (\<lambda>closed_at.
                 rbind (dt_sub closed_at created_at) (\<lambda>d. Inr [td_hours d])))
            else Inr []) (\<lambda>this.
     rbind (restore_times E rest) (\<lambda>more. Inr (this @ more))))))"

text \<open>\<^verbatim>\<open>[d for d in deployments if d.get('status') == 'failed']\<close>\<close>

fun failed_only :: "json list \<Rightarrow> error + json list" where
  "failed_only [] = Inr []"
| "failed_only (d # rest) =
     rbind (py_get d ''status'' JNull) (\<lambda>s.
     rbind (failed_only rest) (\<lambda>more.
     Inr (if s = JStr ''failed'' then d # more else more)))"

text \<open>\<^verbatim>\<open>sum(xs) / len(xs) if xs else 0\<close>\<close>

definition mean_or_0 :: "rat list \<Rightarrow> error + rat" where
  "mean_or_0 xs = (if xs = [] then Inr 0 else py_div (sum_list xs) (of_nat (length xs)))"

text \<open>The three assignments to \<^verbatim>\<open>devops_level\<close>, in the order of the source.\<close>

definition dora_level :: "rat \<Rightarrow> rat \<Rightarrow> rat \<Rightarrow> level" where
  "dora_level freq lead cfr =
     (let l0 = Elite;
          l1 = (if freq < 1 then (if lead < 7 then High else Medium) else l0);
          l2 = (if cfr > 15 then Low else l1)
      in l2)"

text \<open>
  \<^verbatim>\<open>start_date\<close> and \<^verbatim>\<open>end_date\<close> are optional strings; \<^verbatim>\<open>not s\<close> holds of
  \<^verbatim>\<open>None\<close> and of the empty string.
\<close>

definition str_or :: "string option \<Rightarrow> string \<Rightarrow> string" where
  "str_or s d = (case s of None \<Rightarrow> d | Some t \<Rightarrow> if t = [] then d else t)"

text \<open>
  The four outcomes are those of the four requests that \<^verbatim>\<open>asyncio.gather\<close> issues, in
  the order of \<^verbatim>\<open>endpoints\<close>: releases, deployments, merged merge requests, closed
  incident issues.
\<close>

definition get_dora_metrics ::
  "env \<Rightarrow> string option \<Rightarrow> string option \<Rightarrow>
   http_outcome \<Rightarrow> http_outcome \<Rightarrow> http_outcome \<Rightarrow> http_outcome \<Rightarrow> error + dora_report" where
  "get_dora_metrics E start_arg end_arg o0 o1 o2 o3 =
     (let sd = str_or start_arg (strftime E (now E - 30 * day_us));
          ed = str_or end_arg (strftime E (now E));
          releases = or_empty (make_gitlab_request o0);
          deployments = or_empty (make_gitlab_request o1);
          merge_requests = or_empty (make_gitlab_request o2);
          incidents = or_empty (make_gitlab_request o3)
      in
      rbind (parse_ymd E ed) (\<lambda>e.
      rbind (parse_ymd E sd) (\<lambda>s.
      let period = e - s in
      rbind (py_len deployments) (\<lambda>n_dep.
      rbind (py_div (of_nat n_dep) (of_int (max period 1))) (\<lambda>freq.
      rbind (py_slice 50 merge_requests) (\<lambda>first50.
      rbind (py_iter first50) (\<lambda>mrs.
      rbind (lead_times E mrs) (\<lambda>lts.
      rbind (mean_or_0 (map of_int lts)) (\<lambda>lead.
      rbind (py_iter incidents) (\<lambda>incs.
      rbind (restore_times E incs) (\<lambda>rts.
      rbind (mean_or_0 rts) (\<lambda>restore.
      rbind (py_iter deployments) (\<lambda>deps.
      rbind (failed_only deps) (\<lambda>failed.
      let n_failed = length failed in
      rbind (if truthy deployments
             then rbind (py_div (of_nat n_failed) (of_nat n_dep)) (\<lambda>q. Inr (q * 100))
             else Inr 0) (\<lambda>cfr.
      let lvl = dora_level freq lead cfr in
      rbind (py_len releases) (\<lambda>n_rel.
      rbind (py_len merge_requests) (\<lambda>n_mr.
      rbind (py_len incidents) (\<lambda>n_inc.
      Inr \<lparr> start_date = sd, end_date = ed, days_period = period,
            deployment_freq = freq, avg_lead_time = lead, avg_restore_time = restore,
            change_failure_rate = cfr, devops_level = lvl,
            total_deployments = n_dep, failed_deployments = n_failed,
            releases_count = n_rel, merged_mr_count = n_mr,
            incidents_count = n_inc \<rparr>))))))))))))))))))"

section \<open>Project health: \<^verbatim>\<open>project_health_report\<close>\<close>

datatype penalty = NoActivity | ManyOpenMRs | ManyOpenIssues | PipelineFailed

datatype band = Excellent | Attention | Critical

text \<open>
  The report holds the values interpolated into the text: \<open>pipeline_status\<close> is
  \<open>None\<close> for \<^verbatim>\<open>"unknown"\<close> and otherwise the status and id of the latest pipeline;
  \<open>event_lines\<close> are the user, action and time of the first five events; \<open>warnings\<close>
  are the penalty lines appended, in order.
\<close>

record health_report =
  project_name :: json
  path_with_namespace :: json
  activity_days :: int
  visibility :: json
  pipeline_status :: "(json \<times> json) option"
  star_count :: json
  forks_count :: json
  open_mrs_count :: nat
  open_issues_count :: nat
  branch_count :: json
  recent_events_count :: nat
  event_lines :: "(json \<times> json \<times> json) list"
  warnings :: "penalty list"
  health_score :: int
  health_status :: band

text \<open>
  The tool returns the not-found message (an ordinary return, with the project id in it)
  or the report.
\<close>

datatype health_result = NotFound string | Report health_report

text \<open>The loop over \<^verbatim>\<open>recent_events[:5]\<close>.\<close>

fun event_rows :: "json list \<Rightarrow> error + (json \<times> json \<times> json) list" where
  "event_rows [] = Inr []"
| "event_rows (event # rest) =
     rbind (py_get event ''author'' (JObj [])) (\<lambda>a.
     rbind (py_get a ''username'' (JStr ''unknown'')) (\<lambda>user.
     rbind (py_get event ''action_name'' (JStr ''unknown'')) (\<lambda>action.
     rbind (py_get event ''created_at'' (JStr [])) (\<lambda>c.
     rbind (py_slice 16 c) (\<lambda>c16.
     rbind (event_rows rest) (\<lambda>more. Inr ((user, action, c16) # more)))))))"

text \<open>
  One \<^verbatim>\<open>if cond: health_score -= amount; result += warning\<close> step on the pair of
  the score and the warnings so far.
\<close>

definition penalize :: "bool \<Rightarrow> int \<Rightarrow> penalty \<Rightarrow> int \<times> penalty list \<Rightarrow> int \<times> penalty list" where
  "penalize c amount p st = (if c then (fst st - amount, snd st @ [p]) else st)"

text \<open>The conditional expression that picks \<^verbatim>\<open>health_status\<close>.\<close>

definition health_band :: "int \<Rightarrow> band" where
  "health_band score =
     (if score \<ge> 80 then Excellent else if score \<ge> 60 then Attention else Critical)"

text \<open>
  The block that sets \<^verbatim>\<open>pipeline_status\<close>: \<open>None\<close> stands for \<^verbatim>\<open>"unknown"\<close>, and
  the pair is the status and the id that the f-string formats.
\<close>

definition latest_pipeline :: "json \<Rightarrow> error + (json \<times> json) option" where
  "latest_pipeline pipelines =
     (if truthy pipelines
      then rbind (py_first pipelines) (\<lambda>latest.
           rbind (py_get latest ''status'' (JStr ''unknown'')) (\<lambda>st.
           rbind (py_get latest ''id'' JNull) (\<lambda>i. Inr (Some (st, i)))))
      else Inr None)"

text \<open>The block that sets \<^verbatim>\<open>activity_days\<close>.\<close>

definition days_since_activity :: "env \<Rightarrow> json \<Rightarrow> error + int" where
  "days_since_activity E project_info =
     rbind (py_get project_info ''last_activity_at'' JNull) (\<lambda>la.
     if truthy la
     then rbind (py_item project_info ''last_activity_at'') (\<lambda>v.
          rbind (parse_ts E v) (\<lambda>last_activity.
          rbind (dt_sub (Aware (now E)) last_activity) (\<lambda>d. Inr (td_days d))))
     else Inr 0)"

text \<open>\<^verbatim>\<open>pipelines and pipelines[0].get('status') == 'failed'\<close>\<close>

definition latest_failed :: "json \<Rightarrow> error + bool" where
  "latest_failed pipelines =
     (if truthy pipelines
      then rbind (py_first pipelines) (\<lambda>latest.
           rbind (py_get latest ''status'' JNull) (\<lambda>s. Inr (s = JStr ''failed'')))
      else Inr False)"

text \<open>
  The five outcomes are those of the five requests, in the order of \<^verbatim>\<open>endpoints\<close>:
  the project, its open merge requests, open issues, pipelines and events.
\<close>

definition project_health_report ::
  "env \<Rightarrow> string \<Rightarrow> http_outcome \<Rightarrow> http_outcome \<Rightarrow> http_outcome \<Rightarrow> http_outcome \<Rightarrow>
   http_outcome \<Rightarrow> error + health_result" where
  "project_health_report E project_id o0 o1 o2 o3 o4 =
     (let project_info = make_gitlab_request o0;
          open_mrs = or_empty (make_gitlab_request o1);
          open_issues = or_empty (make_gitlab_request o2);
          pipelines = or_empty (make_gitlab_request o3);
          recent_events = or_empty (make_gitlab_request o4)
      in
      if \<not> truthy project_info then Inr (NotFound project_id)
      else
      rbind (py_get project_info ''name'' (JStr project_id)) (\<lambda>name.
      rbind (latest_pipeline pipelines) (\<lambda>pstatus.
      rbind (days_since_activity E project_info) (\<lambda>days.
      rbind (py_get project_info ''path_with_namespace'' (JStr ''N/A'')) (\<lambda>path.
      rbind (py_get project_info ''visibility'' (JStr ''N/A'')) (\<lambda>vis.
      rbind (py_get project_info ''star_count'' (JNum 0)) (\<lambda>stars.
      rbind (py_get project_info ''forks_count'' (JNum 0)) (\<lambda>forks.
      rbind (py_len open_mrs) (\<lambda>n_mrs.
      rbind (py_len open_issues) (\<lambda>n_issues.
      rbind (py_get project_info ''repository'' (JObj [])) (\<lambda>repo.
      rbind (py_get repo ''branch_count'' (JStr ''N/A'')) (\<lambda>branches.
      rbind (py_len recent_events) (\<lambda>n_events.
      rbind (py_slice 5 recent_events) (\<lambda>first5.
      rbind (py_iter first5) (\<lambda>evs.
      rbind (event_rows evs) (\<lambda>rows.
      let st0 = (100, []);
          st1 = penalize (days > 30) 30 NoActivity st0;
          st2 = penalize (n_mrs > 15) 20 ManyOpenMRs st1;
          st3 = penalize (n_issues > 50) 25 ManyOpenIssues st2
      in
      rbind (latest_failed pipelines) (\<lambda>failed.
      let st4 = penalize failed 15 PipelineFailed st3;
          score = fst st4
      in
      Inr (Report \<lparr> project_name = name, path_with_namespace = path,
            activity_days = days, visibility = vis, pipeline_status = pstatus,
            star_count = stars, forks_count = forks,
            open_mrs_count = n_mrs, open_issues_count = n_issues,
            branch_count = branches, recent_events_count = n_events,
            event_lines = rows, warnings = snd st4,
            health_score = score, health_status = health_band score \<rparr>))))))))))))))))))"

section \<open>Issues: \<^verbatim>\<open>analyze_issues\<close>\<close>

text \<open>
  The counting dicts (\<^verbatim>\<open>d[k] = d.get(k, 0) + 1\<close>) are association lists in insertion
  order. A list or a dict is not hashable and cannot be a key; \<^verbatim>\<open>True\<close> and \<^verbatim>\<open>1\<close>
  are the same key.
\<close>

fun key_eq :: "json \<Rightarrow> json \<Rightarrow> bool" where
  "key_eq (JBool b) (JNum q) = (q = (if b then 1 else 0))"
| "key_eq (JNum q) (JBool b) = (q = (if b then 1 else 0))"
| "key_eq x y = (x = y)"

fun bump :: "json \<Rightarrow> (json \<times> nat) list \<Rightarrow> (json \<times> nat) list" where
  "bump k [] = [(k, 1)]"
| "bump k ((k', n) # rest) =
     (if key_eq k k' then (k', n + 1) # rest else (k', n) # bump k rest)"

fun count_key :: "json \<Rightarrow> (json \<times> nat) list \<Rightarrow> error + (json \<times> nat) list" where
  "count_key (JArr xs) d = Inl TypeError"
| "count_key (JObj kvs) d = Inl TypeError"
| "count_key k d = Inr (bump k d)"

fun count_keys :: "json list \<Rightarrow> (json \<times> nat) list \<Rightarrow> error + (json \<times> nat) list" where
  "count_keys [] d = Inr d"
| "count_keys (k # ks) d = rbind (count_key k d) (count_keys ks)"

text \<open>\<^verbatim>\<open>d.get(k, 0)\<close> on a counting dict, for a str key.\<close>

definition count_of :: "string \<Rightarrow> (json \<times> nat) list \<Rightarrow> nat" where
  "count_of k d = (case map_of d (JStr k) of None \<Rightarrow> 0 | Some n \<Rightarrow> n)"

record issue_stats =
  state_counts :: "(json \<times> nat) list"
  label_counts :: "(json \<times> nat) list"
  assignee_counts :: "(json \<times> nat) list"

text \<open>The first loop over \<^verbatim>\<open>issues\<close>, on the three counting dicts.\<close>

fun count_issues :: "json list \<Rightarrow> issue_stats \<Rightarrow> error + issue_stats" where
  "count_issues [] st = Inr st"
| "count_issues (issue # rest) st =
     rbind (py_get issue ''state'' (JStr ''opened'')) (\<lambda>state.
     rbind (count_key state (state_counts st)) (\<lambda>sc.
     rbind (py_get issue ''labels'' (JArr [])) (\<lambda>labels.
     rbind (py_iter labels) (\<lambda>lbls.
     rbind (count_keys lbls (label_counts st)) (\<lambda>lc.
     rbind (py_get issue ''assignee'' JNull) (\<lambda>a.
     rbind (if truthy a
            then rbind (py_get a ''username'' (JStr ''unknown'')) (\<lambda>assignee.
                 count_key assignee (assignee_counts st))
            else Inr (assignee_counts st)) (\<lambda>ac.
     count_issues rest
       \<lparr> state_counts = sc, label_counts = lc, assignee_counts = ac \<rparr>)))))))"

text \<open>The four age groups, in the order of the source's dict.\<close>

record age_groups =
  under_1_day :: nat
  days_1_to_7 :: nat
  weeks_1_to_4 :: nat
  over_1_month :: nat

definition age_bucket :: "int \<Rightarrow> age_groups \<Rightarrow> age_groups" where
  "age_bucket age g =
     (if age < 1 then g\<lparr>under_1_day := under_1_day g + 1\<rparr>
      else if age \<le> 7 then g\<lparr>days_1_to_7 := days_1_to_7 g + 1\<rparr>
      else if age \<le> 30 then g\<lparr>weeks_1_to_4 := weeks_1_to_4 g + 1\<rparr>
      else g\<lparr>over_1_month := over_1_month g + 1\<rparr>)"

text \<open>The second loop over \<^verbatim>\<open>issues\<close>: the age of every open issue.\<close>

fun age_loop :: "env \<Rightarrow> json list \<Rightarrow> age_groups \<Rightarrow> error + age_groups" where
  "age_loop E [] g = Inr g"
| "age_loop E (issue # rest) g =
     rbind (py_item issue ''state'') (\<lambda>state.
     rbind (if state = JStr ''opened''
            then rbind (py_item issue ''created_at'') (\<lambda>c.
                 rbind (parse_ts E c) (\<lambda>created.
                 rbind (dt_sub (Aware (now E)) created) (\<lambda>d. Inr (age_bucket (td_days d) g))))
            else Inr g) (\<lambda>g'.
     age_loop E rest g'))"

text \<open>\<^verbatim>\<open>[i for i in issues if i.get('discussion_locked')]\<close>\<close>

fun locked_only :: "json list \<Rightarrow> error + json list" where
  "locked_only [] = Inr []"
| "locked_only (i # rest) =
     rbind (py_get i ''discussion_locked'' JNull) (\<lambda>l.
     rbind (locked_only rest) (\<lambda>more. Inr (if truthy l then i # more else more)))"

text \<open>
  \<^verbatim>\<open>'k' in x\<close> for a str \<open>k\<close>: membership in a list, a key of a dict, a substring of a
  str.
\<close>

fun starts_with :: "string \<Rightarrow> string \<Rightarrow> bool" where
  "starts_with [] s = True"
| "starts_with (c # cs) [] = False"
| "starts_with (c # cs) (d # ds) = (c = d \<and> starts_with cs ds)"

fun substring :: "string \<Rightarrow> string \<Rightarrow> bool" where
  "substring k [] = (k = [])"
| "substring k (c # cs) = (starts_with k (c # cs) \<or> substring k cs)"

fun py_in :: "string \<Rightarrow> json \<Rightarrow> error + bool" where
  "py_in k (JArr xs) = Inr (JStr k \<in> set xs)"
| "py_in k (JObj kvs) = Inr (k \<in> set (map fst kvs))"
| "py_in k (JStr s) = Inr (substring k s)"
| "py_in k _ = Inl TypeError"

text \<open>The filter that builds \<^verbatim>\<open>critical_issues\<close>, with its short-circuit operators.\<close>

fun critical_only :: "json list \<Rightarrow> error + json list" where
  "critical_only [] = Inr []"
| "critical_only (i # rest) =
     rbind (py_item i ''state'') (\<lambda>state.
     rbind (if state = JStr ''opened''
            then rbind (py_get i ''labels'' (JArr [])) (\<lambda>l1.
                 rbind (py_in ''critical'' l1) (\<lambda>b1.
                 if b1 then Inr True
                 else rbind (py_get i ''labels'' (JArr [])) (\<lambda>l2. py_in ''severity::1'' l2)))
            else Inr False) (\<lambda>keep.
     rbind (critical_only rest) (\<lambda>more. Inr (if keep then i # more else more))))"

text \<open>The loop over \<^verbatim>\<open>critical_issues[:3]\<close>: iid, title and the day of creation.\<close>

fun critical_rows :: "json list \<Rightarrow> error + (json \<times> json \<times> json) list" where
  "critical_rows [] = Inr []"
| "critical_rows (issue # rest) =
     rbind (py_item issue ''iid'') (\<lambda>iid.
     rbind (py_item issue ''title'') (\<lambda>title.
     rbind (py_item issue ''created_at'') (\<lambda>c.
     rbind (py_slice 10 c) (\<lambda>c10.
     rbind (critical_rows rest) (\<lambda>more. Inr ((iid, title, c10) # more))))))"

text \<open>
  The report holds the computed statistics; the order in which the text lists the top
  five labels and assignees is not part of it.
\<close>

record issues_report =
  total_issues :: nat
  opened_count :: nat
  closed_count :: nat
  locked_count :: nat
  ages :: age_groups
  stats :: issue_stats
  critical_count :: nat
  critical_lines :: "(json \<times> json \<times> json) list"

datatype issues_result = NoIssues | Issues issues_report

definition analyze_issues :: "env \<Rightarrow> http_outcome \<Rightarrow> error + issues_result" where
  "analyze_issues E o0 =
     (let issues = or_empty (make_gitlab_request o0) in
      if \<not> truthy issues then Inr NoIssues
      else
      rbind (py_iter issues) (\<lambda>is.
      rbind (count_issues is
               \<lparr> state_counts = [], label_counts = [], assignee_counts = [] \<rparr>) (\<lambda>st.
      rbind (age_loop E is
               \<lparr> under_1_day = 0, days_1_to_7 = 0, weeks_1_to_4 = 0, over_1_month = 0 \<rparr>) (\<lambda>g.
      rbind (py_len issues) (\<lambda>n.
      rbind (locked_only is) (\<lambda>locked.
      rbind (critical_only is) (\<lambda>critical.
      rbind (critical_rows (take 3 critical)) (\<lambda>rows.
      Inr (Issues \<lparr> total_issues = n,
            opened_count = count_of ''opened'' (state_counts st),
            closed_count = count_of ''closed'' (state_counts st),
            locked_count = length locked, ages = g, stats = st,
            critical_count = length critical, critical_lines = rows \<rparr>)))))))))"

section \<open>A concrete environment\<close>

text \<open>
  A few timestamps and dates as Python reads them: microseconds since the epoch for
  \<^verbatim>\<open>fromisoformat\<close>, \<^verbatim>\<open>toordinal()\<close> for the dates; the clock stands at
  2024-03-01T00:00:00 UTC, thirty days after 2024-01-31. A string outside the tables
  stands for one that Python rejects.
\<close>

definition demo_fromisoformat :: "string \<Rightarrow> datetime option" where
  "demo_fromisoformat s =
     (if s = ''2024-01-01T00:00:00+00:00'' then Some (Aware 1704067200000000)
      else if s = ''2024-01-02T12:00:00+00:00'' then Some (Aware 1704196800000000)
      else if s = ''2024-01-03T00:00:00+00:00'' then Some (Aware 1704240000000000)
      else if s = ''2024-01-31T00:00:00+00:00'' then Some (Aware 1706659200000000)
      else None)"

definition demo_strptime :: "string \<Rightarrow> int option" where
  "demo_strptime s =
     (if s = ''2024-01-01'' then Some 738886
      else if s = ''2024-01-31'' then Some 738916
      else if s = ''2024-03-01'' then Some 738946
      else None)"

definition demo_strftime :: "int \<Rightarrow> string" where
  "demo_strftime t =
     (if t = 1709251200000000 then ''2024-03-01''
      else if t = 1706659200000000 then ''2024-01-31''
      else ''1970-01-01'')"

definition demo_env :: env where
  "demo_env = \<lparr> fromisoformat = demo_fromisoformat, strptime = demo_strptime,
                strftime = demo_strftime, now = 1709251200000000 \<rparr>"

section \<open>Notions of the specification\<close>

text \<open>A deployment (or pipeline) record whose \<^verbatim>\<open>status\<close> is the given string.\<close>

definition has_status :: "string \<Rightarrow> json \<Rightarrow> bool" where
  "has_status s d = (py_get d ''status'' JNull = Inr (JStr s))"

text \<open>The amount each penalty takes off the health score.\<close>

fun penalty_amount :: "penalty \<Rightarrow> int" where
  "penalty_amount NoActivity = 30"
| "penalty_amount ManyOpenMRs = 20"
| "penalty_amount ManyOpenIssues = 25"
| "penalty_amount PipelineFailed = 15"

text \<open>The latest pipeline of a report has the status \<^verbatim>\<open>failed\<close>.\<close>

definition pipeline_failed :: "health_report \<Rightarrow> bool" where
  "pipeline_failed r = (case pipeline_status r of None \<Rightarrow> False | Some (s, i) \<Rightarrow> s = JStr ''failed'')"

text \<open>
  A fetch that did not complete: a transport error, a timeout, or a status that is not
  2xx.
\<close>

definition failed_fetch :: "http_outcome \<Rightarrow> bool" where
  "failed_fetch out =
     (case out of TransportError \<Rightarrow> True | Timeout \<Rightarrow> True
      | Response status body \<Rightarrow> \<not> (200 \<le> status \<and> status < 300))"

text \<open>The health tool returned a report, not the not-found message and not an exception.\<close>

definition is_report :: "error + health_result \<Rightarrow> bool" where
  "is_report x = (case x of Inr (Report r) \<Rightarrow> True | _ \<Rightarrow> False)"

text \<open>
  A merge request counts as merged when \<^verbatim>\<open>mr.get('merged_at')\<close> is truthy.
\<close>

definition is_merged :: "json \<Rightarrow> bool" where
  "is_merged mr = (case py_get mr ''merged_at'' JNull of Inr m \<Rightarrow> truthy m | Inl e \<Rightarrow> False)"

text \<open>
  The lead time of one merge request, \<^verbatim>\<open>merged_at - created_at\<close>, in microseconds;
  \<open>lead_days\<close> is its \<^verbatim>\<open>.days\<close>, and \<open>exact_days\<close> reads a duration in days without
  rounding.
\<close>

definition mr_lead_us :: "env \<Rightarrow> json \<Rightarrow> error + int" where
  "mr_lead_us E mr =
     rbind (rbind (py_item mr ''created_at'') (parse_ts E)) (\<lambda>c.
     rbind (rbind (py_item mr ''merged_at'') (parse_ts E)) (\<lambda>m. dt_sub m c))"

definition lead_days :: "env \<Rightarrow> json \<Rightarrow> rat" where
  "lead_days E mr = (case mr_lead_us E mr of Inr d \<Rightarrow> of_int (td_days d) | Inl e \<Rightarrow> 0)"

definition exact_days :: "int \<Rightarrow> rat" where
  "exact_days d = of_int d / of_int day_us"

text \<open>
  A record whose \<^verbatim>\<open>created_at\<close> is present and parses, and a record whose terminal
  timestamp (\<^verbatim>\<open>merged_at\<close> or \<^verbatim>\<open>closed_at\<close>, the key \<open>k\<close>) is absent, null or empty.
\<close>

definition created_ok :: "env \<Rightarrow> json \<Rightarrow> bool" where
  "created_ok E rec =
     (case rbind (py_item rec ''created_at'') (parse_ts E) of Inr t \<Rightarrow> True | Inl e \<Rightarrow> False)"

definition no_terminal :: "string \<Rightarrow> json \<Rightarrow> bool" where
  "no_terminal k rec = (case py_get rec k JNull of Inr m \<Rightarrow> \<not> truthy m | Inl e \<Rightarrow> False)"

section \<open>Concrete responses\<close>

definition empty_list :: http_outcome where
  "empty_list = Response 200 (Some (JArr []))"

definition one_failed :: http_outcome where
  "one_failed = Response 200 (Some (JArr [JObj [(''status'', JStr ''failed'')]]))"

definition one_ok :: http_outcome where
  "one_ok = Response 200 (Some (JArr [JObj [(''status'', JStr ''success'')]]))"

definition server_error :: http_outcome where
  "server_error = Response 500 (Some (JObj [(''message'', JStr ''500 Internal Server Error'')]))"

definition demo_project :: http_outcome where
  "demo_project = Response 200 (Some (JObj
     [(''name'', JStr ''demo''), (''last_activity_at'', JStr ''2024-01-01T00:00:00Z'')]))"

definition many_mrs :: http_outcome where
  "many_mrs = Response 200 (Some (JArr (replicate 16 (JObj []))))"

definition many_issues :: http_outcome where
  "many_issues = Response 200 (Some (JArr (replicate 51 (JObj []))))"

definition demo_report_worst :: health_report where
  "demo_report_worst =
     \<lparr> project_name = JStr ''demo'', path_with_namespace = JStr ''N/A'',
       activity_days = 60, visibility = JStr ''N/A'',
       pipeline_status = Some (JStr ''failed'', JNull),
       star_count = JNum 0, forks_count = JNum 0,
       open_mrs_count = 16, open_issues_count = 51,
       branch_count = JStr ''N/A'', recent_events_count = 0,
       event_lines = [],
       warnings = [NoActivity, ManyOpenMRs, ManyOpenIssues, PipelineFailed],
       health_score = 10, health_status = Critical \<rparr>"

definition demo_report_quiet :: health_report where
  "demo_report_quiet =
     \<lparr> project_name = JStr ''demo'', path_with_namespace = JStr ''N/A'',
       activity_days = 60, visibility = JStr ''N/A'',
       pipeline_status = None,
       star_count = JNum 0, forks_count = JNum 0,
       open_mrs_count = 0, open_issues_count = 0,
       branch_count = JStr ''N/A'', recent_events_count = 0,
       event_lines = [],
       warnings = [NoActivity],
       health_score = 70, health_status = Attention \<rparr>"

text \<open>A request answered with status 200 and the given list.\<close>

definition ok_list :: "json list \<Rightarrow> http_outcome" where
  "ok_list xs = Response 200 (Some (JArr xs))"

text \<open>
  Merge requests created on 2024-01-01: merged two days later, merged 36 hours later,
  not merged; one whose \<^verbatim>\<open>created_at\<close> is not a timestamp; an incident that was not
  closed; an open issue without \<^verbatim>\<open>created_at\<close>.
\<close>

definition mr_2_days :: json where
  "mr_2_days = JObj [(''created_at'', JStr ''2024-01-01T00:00:00Z''),
                     (''merged_at'', JStr ''2024-01-03T00:00:00Z'')]"

definition mr_36_hours :: json where
  "mr_36_hours = JObj [(''created_at'', JStr ''2024-01-01T00:00:00Z''),
                       (''merged_at'', JStr ''2024-01-02T12:00:00Z'')]"

definition mr_bad_date :: json where
  "mr_bad_date = JObj [(''created_at'', JStr ''yesterday''),
                       (''merged_at'', JStr ''2024-01-03T00:00:00Z'')]"

definition mr_not_merged :: json where
  "mr_not_merged = JObj [(''created_at'', JStr ''2024-01-01T00:00:00Z''),
                         (''merged_at'', JNull)]"

definition incident_not_closed :: json where
  "incident_not_closed = JObj [(''created_at'', JStr ''2024-01-01T00:00:00Z'')]"

definition issue_no_created :: json where
  "issue_no_created = JObj [(''state'', JStr ''opened'')]"

definition ten_merged :: "json list" where
  "ten_merged = [mr_2_days, mr_2_days, mr_2_days, mr_2_days, mr_2_days,
                 mr_2_days, mr_2_days, mr_2_days, mr_2_days, mr_2_days]"

definition demo_report_lead :: dora_report where
  "demo_report_lead =
     \<lparr>start_date = ''2024-01-01'', end_date = ''2024-01-31'',
      days_period = 30, deployment_freq = 0, avg_lead_time = 2,
      avg_restore_time = 0, change_failure_rate = 0, devops_level = High,
      total_deployments = 0, failed_deployments = 0, releases_count = 0,
      merged_mr_count = 10, incidents_count = 0\<rparr>"

definition demo_report_one :: dora_report where
  "demo_report_one =
     \<lparr>start_date = ''2024-01-01'', end_date = ''2024-01-31'',
      days_period = 30, deployment_freq = 0, avg_lead_time = 2,
      avg_restore_time = 0, change_failure_rate = 0, devops_level = High,
      total_deployments = 0, failed_deployments = 0, releases_count = 0,
      merged_mr_count = 1, incidents_count = 0\<rparr>"

text \<open>
  The reports of a window of one day and of a window whose end is before its start,
  each with one successful deployment.
\<close>

definition demo_report_same_day :: dora_report where
  "demo_report_same_day =
     \<lparr>start_date = ''2024-01-01'', end_date = ''2024-01-01'',
      days_period = 0, deployment_freq = 1, avg_lead_time = 0,
      avg_restore_time = 0, change_failure_rate = 0, devops_level = Elite,
      total_deployments = 1, failed_deployments = 0, releases_count = 0,
      merged_mr_count = 0, incidents_count = 0\<rparr>"

definition demo_report_reversed :: dora_report where
  "demo_report_reversed =
     \<lparr>start_date = ''2024-01-31'', end_date = ''2024-01-01'',
      days_period = - 30, deployment_freq = 1, avg_lead_time = 0,
      avg_restore_time = 0, change_failure_rate = 0, devops_level = Elite,
      total_deployments = 1, failed_deployments = 0, releases_count = 0,
      merged_mr_count = 0, incidents_count = 0\<rparr>"

section \<open>Basic facts\<close>

lemma rbind_simps [simp]:
  "rbind (Inl e) f = Inl e"
  "rbind (Inr x) f = f x"
  by (simp_all add: rbind_def)

lemma rbind_eq_Inr: "rbind m f = Inr y \<longleftrightarrow> (\<exists>x. m = Inr x \<and> f x = Inr y)"
  by (cases m) simp_all

lemma rbind_InrE:
  assumes "rbind m f = Inr y"
  obtains x where "m = Inr x" "f x = Inr y"
  using assms by (auto simp: rbind_eq_Inr)

lemma or_empty_JNull [simp]: "or_empty JNull = JArr []"
  by (simp add: or_empty_def)

lemma or_empty_empty [simp]: "or_empty (JArr []) = JArr []"
  by (simp add: or_empty_def)

lemma rbind_eq_Inl:
  "rbind m f = Inl e \<longleftrightarrow> m = Inl e \<or> (\<exists>x. m = Inr x \<and> f x = Inl e)"
  by (cases m) simp_all

lemmas demo_defs = demo_env_def demo_strptime_def demo_strftime_def demo_fromisoformat_def

lemmas dora_defs = get_dora_metrics_def Let_def str_or_def parse_ymd_def or_empty_def
  mean_or_0_def dora_level_def py_div_def parse_ts_def parse_iso_def td_days_def td_hours_def
  day_us_def

subsection \<open>No step divides by zero\<close>

lemma py_len_no_zde: "py_len x \<noteq> Inl ZeroDivisionError"
  by (cases x) simp_all

lemma py_iter_no_zde: "py_iter x \<noteq> Inl ZeroDivisionError"
  by (cases x) simp_all

lemma py_slice_no_zde: "py_slice n x \<noteq> Inl ZeroDivisionError"
  by (cases x) simp_all

lemma py_item_no_zde: "py_item x k \<noteq> Inl ZeroDivisionError"
  by (cases x) (simp_all split: option.splits)

lemma py_get_no_zde: "py_get x k d \<noteq> Inl ZeroDivisionError"
  by (cases x) simp_all

lemma parse_ts_no_zde: "parse_ts E v \<noteq> Inl ZeroDivisionError"
  by (cases v) (simp_all add: parse_ts_def parse_iso_def split: option.splits)

lemma parse_ymd_no_zde: "parse_ymd E s \<noteq> Inl ZeroDivisionError"
  by (simp add: parse_ymd_def split: option.splits)

lemma dt_sub_no_zde: "dt_sub a b \<noteq> Inl ZeroDivisionError"
  by (cases a; cases b) simp_all

lemmas no_zde = py_len_no_zde py_iter_no_zde py_slice_no_zde py_item_no_zde py_get_no_zde
  parse_ts_no_zde parse_ymd_no_zde dt_sub_no_zde

lemma lead_times_no_zde: "lead_times E mrs \<noteq> Inl ZeroDivisionError"
  by (induction mrs) (auto simp: rbind_eq_Inl no_zde split: if_splits)

lemma restore_times_no_zde: "restore_times E incs \<noteq> Inl ZeroDivisionError"
  by (induction incs) (auto simp: rbind_eq_Inl no_zde split: if_splits)

lemma failed_only_no_zde: "failed_only ds \<noteq> Inl ZeroDivisionError"
  by (induction ds) (auto simp: rbind_eq_Inl no_zde)

lemma mean_or_0_no_zde: "mean_or_0 xs \<noteq> Inl ZeroDivisionError"
  by (simp add: mean_or_0_def py_div_def)

lemma truthy_len_pos: "truthy x \<Longrightarrow> py_len x = Inr n \<Longrightarrow> 0 < n"
  by (cases x) auto

lemma get_dora_no_zde: "get_dora_metrics E sa ea o0 o1 o2 o3 \<noteq> Inl ZeroDivisionError"
  unfolding get_dora_metrics_def Let_def
  by (auto simp: rbind_eq_Inl no_zde lead_times_no_zde restore_times_no_zde failed_only_no_zde
        mean_or_0_no_zde py_div_def dest: truthy_len_pos split: if_splits)

section \<open>DORA metrics: the level, the frequency and the failure rate\<close>

lemma get_dora_Inr_level:
  assumes "get_dora_metrics E sa ea o0 o1 o2 o3 = Inr r"
  shows "devops_level r =
         dora_level (deployment_freq r) (avg_lead_time r) (change_failure_rate r)"
  using assms
  by (auto simp: get_dora_metrics_def Let_def rbind_eq_Inr)

lemma demo_run_one_failed:
  "get_dora_metrics demo_env (Some ''2024-01-01'') (Some ''2024-01-31'')
     Timeout one_failed Timeout Timeout =
   Inr \<lparr>start_date = ''2024-01-01'', end_date = ''2024-01-31'',
        days_period = 30, deployment_freq = 1 / 30, avg_lead_time = 0,
        avg_restore_time = 0, change_failure_rate = 100, devops_level = Low,
        total_deployments = 1, failed_deployments = 1, releases_count = 0,
        merged_mr_count = 0, incidents_count = 0\<rparr>"
  by (simp add: dora_defs demo_defs one_failed_def)

text \<open>
  Claim C1. Whenever \<^verbatim>\<open>get_dora_metrics\<close> produces its report and the change-failure
  rate it computed exceeds 15, the level of the report is Low, whatever the deployment
  frequency and the average lead time are: the failure-rate test is the last assignment.
\<close>

theorem C1_failure_rate_forces_low:
  "get_dora_metrics E sa ea o0 o1 o2 o3 = Inr r \<Longrightarrow> change_failure_rate r > 15 \<Longrightarrow>
   devops_level r = Low"
  by (simp add: get_dora_Inr_level dora_level_def)

theorem C1_failure_rate_forces_low_witness:
  "get_dora_metrics demo_env (Some ''2024-01-01'') (Some ''2024-01-31'')
     Timeout one_failed Timeout Timeout =
   Inr \<lparr>start_date = ''2024-01-01'', end_date = ''2024-01-31'',
        days_period = 30, deployment_freq = 1 / 30, avg_lead_time = 0,
        avg_restore_time = 0, change_failure_rate = 100, devops_level = Low,
        total_deployments = 1, failed_deployments = 1, releases_count = 0,
        merged_mr_count = 0, incidents_count = 0\<rparr>"
  (is "?run = Inr ?r")
proof -
  have run: "?run = Inr ?r" by (rule demo_run_one_failed)
  have "(15::rat) < change_failure_rate ?r" by simp
  from C1_failure_rate_forces_low [OF run this] show ?thesis using run by simp
qed

lemma get_dora_freq:
  assumes "get_dora_metrics E sa ea o0 o1 o2 o3 = Inr r"
  shows "deployment_freq r = of_nat (total_deployments r) / of_int (max (days_period r) 1)"
    and "start_date r = end_date r \<longrightarrow> days_period r = 0"
  using assms
  by (auto simp: get_dora_metrics_def Let_def rbind_eq_Inr py_div_def split: if_splits)

lemma get_dora_period:
  assumes "get_dora_metrics E sa ea o0 o1 o2 o3 = Inr r"
  shows "start_date r = str_or sa (strftime E (now E - 30 * day_us))"
    and "end_date r = str_or ea (strftime E (now E))"
    and "\<exists>e s. parse_ymd E (end_date r) = Inr e \<and> parse_ymd E (start_date r) = Inr s \<and>
           days_period r = e - s"
    and "py_len (or_empty (make_gitlab_request o1)) = Inr (total_deployments r)"
  using assms
  unfolding get_dora_metrics_def Let_def
  by (elim rbind_InrE; clarsimp)+

text \<open>
  Claim C7. The division that gives the deployment frequency never raises
  ZeroDivisionError, and no other step of \<^verbatim>\<open>get_dora_metrics\<close> does. In every report
  the start and end dates are the arguments (or their defaults), the period is the day
  of the end date minus the day of the start date, and the frequency is the number of
  deployments fetched divided by the larger of that difference and 1, a divisor that is
  at least 1; the frequency is not negative; when the end date is not after the start
  date the divisor is 1, the frequency being the deployment count itself; and equal
  start and end dates give a period of zero days.
\<close>

theorem C7_duration_at_least_one:
  "get_dora_metrics E sa ea o0 o1 o2 o3 \<noteq> Inl ZeroDivisionError \<and>
   (\<forall>r. get_dora_metrics E sa ea o0 o1 o2 o3 = Inr r \<longrightarrow>
      start_date r = str_or sa (strftime E (now E - 30 * day_us)) \<and>
      end_date r = str_or ea (strftime E (now E)) \<and>
      py_len (or_empty (make_gitlab_request o1)) = Inr (total_deployments r) \<and>
      (\<exists>e s. parse_ymd E (end_date r) = Inr e \<and> parse_ymd E (start_date r) = Inr s \<and>
             days_period r = e - s \<and>
             deployment_freq r = of_nat (total_deployments r) / of_int (max (e - s) 1) \<and>
             (e - s \<le> 0 \<longrightarrow> max (e - s) 1 = 1 \<and>
                deployment_freq r = of_nat (total_deployments r))) \<and>
      deployment_freq r = of_nat (total_deployments r) / of_int (max (days_period r) 1) \<and>
      1 \<le> max (days_period r) 1 \<and> 0 \<le> deployment_freq r \<and>
      (days_period r \<le> 0 \<longrightarrow> deployment_freq r = of_nat (total_deployments r)) \<and>
      (start_date r = end_date r \<longrightarrow> days_period r = 0))"
proof (intro conjI allI impI)
  show "get_dora_metrics E sa ea o0 o1 o2 o3 \<noteq> Inl ZeroDivisionError"
    by (rule get_dora_no_zde)
next
  fix r assume run: "get_dora_metrics E sa ea o0 o1 o2 o3 = Inr r"
  note f = get_dora_freq(1) [OF run]
  show "start_date r = str_or sa (strftime E (now E - 30 * day_us))"
    by (rule get_dora_period(1) [OF run])
  show "end_date r = str_or ea (strftime E (now E))"
    by (rule get_dora_period(2) [OF run])
  show "py_len (or_empty (make_gitlab_request o1)) = Inr (total_deployments r)"
    by (rule get_dora_period(4) [OF run])
  from get_dora_period(3) [OF run] obtain e s where
    es: "parse_ymd E (end_date r) = Inr e" "parse_ymd E (start_date r) = Inr s"
        "days_period r = e - s" by blast
  have "deployment_freq r = of_nat (total_deployments r) / of_int (max (e - s) 1)"
    using f es(3) by simp
  moreover have "max (e - s) 1 = 1 \<and> deployment_freq r = of_nat (total_deployments r)"
    if "e - s \<le> 0"
    using f es(3) that by (simp add: max_def)
  ultimately show "\<exists>e s. parse_ymd E (end_date r) = Inr e \<and>
             parse_ymd E (start_date r) = Inr s \<and>
             days_period r = e - s \<and>
             deployment_freq r = of_nat (total_deployments r) / of_int (max (e - s) 1) \<and>
             (e - s \<le> 0 \<longrightarrow> max (e - s) 1 = 1 \<and>
                deployment_freq r = of_nat (total_deployments r))"
    using es by blast
  show "deployment_freq r = of_nat (total_deployments r) / of_int (max (days_period r) 1)"
    by (rule f)
  show "1 \<le> max (days_period r) 1" by simp
  show "0 \<le> deployment_freq r" unfolding f by simp
  show "deployment_freq r = of_nat (total_deployments r)" if "days_period r \<le> 0"
    unfolding f using that by (simp add: max_def)
  show "days_period r = 0" if "start_date r = end_date r"
    using get_dora_freq(2) [OF run] that by simp
qed

lemma demo_run_same_day:
  "get_dora_metrics demo_env (Some ''2024-01-01'') (Some ''2024-01-01'')
     Timeout one_ok Timeout Timeout = Inr demo_report_same_day"
  by (simp add: dora_defs demo_defs one_ok_def demo_report_same_day_def)

lemma demo_run_reversed:
  "get_dora_metrics demo_env (Some ''2024-01-31'') (Some ''2024-01-01'')
     Timeout one_ok Timeout Timeout = Inr demo_report_reversed"
  by (simp add: dora_defs demo_defs one_ok_def demo_report_reversed_def)

theorem C7_duration_at_least_one_witness:
  "get_dora_metrics demo_env (Some ''2024-01-01'') (Some ''2024-01-01'')
     Timeout one_ok Timeout Timeout = Inr demo_report_same_day \<and>
   start_date demo_report_same_day = end_date demo_report_same_day \<and>
   days_period demo_report_same_day = 0 \<and>
   deployment_freq demo_report_same_day = 1 \<and>
   get_dora_metrics demo_env (Some ''2024-01-31'') (Some ''2024-01-01'')
     Timeout one_ok Timeout Timeout = Inr demo_report_reversed \<and>
   parse_ymd demo_env (end_date demo_report_reversed) = Inr 738886 \<and>
   parse_ymd demo_env (start_date demo_report_reversed) = Inr 738916 \<and>
   days_period demo_report_reversed = - 30 \<and>
   deployment_freq demo_report_reversed = 1"
proof -
  have same: "start_date demo_report_same_day = end_date demo_report_same_day"
    by (simp add: demo_report_same_day_def)
  have n1: "total_deployments demo_report_same_day = 1"
    by (simp add: demo_report_same_day_def)
  have n2: "total_deployments demo_report_reversed = 1"
    by (simp add: demo_report_reversed_def)
  have pe: "parse_ymd demo_env (end_date demo_report_reversed) = Inr 738886"
    by (simp add: demo_report_reversed_def parse_ymd_def demo_defs)
  have ps: "parse_ymd demo_env (start_date demo_report_reversed) = Inr 738916"
    by (simp add: demo_report_reversed_def parse_ymd_def demo_defs)
  from C7_duration_at_least_one [of demo_env "Some ''2024-01-01''" "Some ''2024-01-01''"
              Timeout one_ok Timeout Timeout] demo_run_same_day same
  have z: "days_period demo_report_same_day = 0" by blast
  from C7_duration_at_least_one [of demo_env "Some ''2024-01-01''" "Some ''2024-01-01''"
              Timeout one_ok Timeout Timeout] demo_run_same_day z n1
  have f1: "deployment_freq demo_report_same_day = 1" by simp
  from C7_duration_at_least_one [of demo_env "Some ''2024-01-31''" "Some ''2024-01-01''"
              Timeout one_ok Timeout Timeout] demo_run_reversed
  obtain e s where es: "parse_ymd demo_env (end_date demo_report_reversed) = Inr e"
      "parse_ymd demo_env (start_date demo_report_reversed) = Inr s"
      "days_period demo_report_reversed = e - s"
      "e - s \<le> 0 \<longrightarrow> deployment_freq demo_report_reversed =
         of_nat (total_deployments demo_report_reversed)"
    by blast
  from es(1,2) pe ps have "e = 738886" "s = 738916" by simp_all
  with es(3,4) n2 have "days_period demo_report_reversed = - 30"
    "deployment_freq demo_report_reversed = 1" by simp_all
  with demo_run_same_day same z f1 demo_run_reversed pe ps show ?thesis by simp
qed

lemma failed_only_Inr:
  "failed_only ds = Inr fs \<Longrightarrow>
   fs = filter (has_status ''failed'') ds \<and> (\<forall>d\<in>set ds. \<exists>kvs. d = JObj kvs)"
proof (induction ds arbitrary: fs)
  case Nil
  then show ?case by simp
next
  case (Cons d ds)
  then show ?case
    by (cases d) (auto simp: rbind_eq_Inr has_status_def split: if_splits)
qed

lemma iter_all_objects:
  assumes "py_iter x = Inr ds" "\<forall>d\<in>set ds. \<exists>kvs. d = JObj kvs"
  shows "x = JArr ds \<or> (ds = [] \<and> \<not> truthy x)"
proof (cases x)
  case (JObj kvs)
  with assms show ?thesis by (cases kvs) auto
next
  case (JStr str)
  with assms show ?thesis by (cases str) auto
qed (use assms in auto)

lemma get_dora_cfr:
  assumes "get_dora_metrics E sa ea o0 o1 o2 o3 = Inr r"
  shows "\<exists>ds. or_empty (make_gitlab_request o1) = JArr ds \<and>
          total_deployments r = length ds \<and>
          failed_deployments r = length (filter (has_status ''failed'') ds) \<and>
          change_failure_rate r =
            (if ds = [] then 0 else 100 * of_nat (failed_deployments r) / of_nat (length ds))"
proof -
  let ?deps = "or_empty (make_gitlab_request o1)"
  from assms obtain n ds fs cfr where
    len: "py_len ?deps = Inr n" and it: "py_iter ?deps = Inr ds"
    and fo: "failed_only ds = Inr fs"
    and c: "(if truthy ?deps
             then rbind (py_div (of_nat (length fs)) (of_nat n)) (\<lambda>q. Inr (q * 100))
             else Inr 0) = Inr cfr"
    and r: "total_deployments r = n" "failed_deployments r = length fs"
           "change_failure_rate r = cfr"
    by (auto simp: get_dora_metrics_def Let_def rbind_eq_Inr)
  from failed_only_Inr [OF fo] have fs: "fs = filter (has_status ''failed'') ds"
    and objs: "\<forall>d\<in>set ds. \<exists>kvs. d = JObj kvs" by simp_all
  from iter_all_objects [OF it objs] have "?deps = JArr ds"
    by (auto simp: or_empty_def split: if_splits)
  with len c r fs show ?thesis
    by (auto simp: py_div_def mult.commute split: if_splits)
qed

text \<open>
  Claim C8. In every report of \<^verbatim>\<open>get_dora_metrics\<close> the deployments are a list, the
  change-failure rate is 100 times the number of deployments whose status is
  \<^verbatim>\<open>failed\<close> divided by the number of deployments, it is 0 when the list is empty, and
  it lies between 0 and 100. (The quotient is exact here; the source computes it in
  floating point.)
\<close>

theorem C8_change_failure_rate:
  "get_dora_metrics E sa ea o0 o1 o2 o3 = Inr r \<Longrightarrow>
   (\<exists>ds. or_empty (make_gitlab_request o1) = JArr ds \<and>
          total_deployments r = length ds \<and>
          failed_deployments r = length (filter (has_status ''failed'') ds) \<and>
          change_failure_rate r =
            (if ds = [] then 0
             else 100 * of_nat (failed_deployments r) / of_nat (length ds))) \<and>
   0 \<le> change_failure_rate r \<and> change_failure_rate r \<le> 100"
proof -
  assume run: "get_dora_metrics E sa ea o0 o1 o2 o3 = Inr r"
  from get_dora_cfr [OF run] obtain ds where
    d: "or_empty (make_gitlab_request o1) = JArr ds" "total_deployments r = length ds"
       "failed_deployments r = length (filter (has_status ''failed'') ds)"
       "change_failure_rate r =
            (if ds = [] then 0 else 100 * of_nat (failed_deployments r) / of_nat (length ds))"
    by blast
  have le: "failed_deployments r \<le> length ds" using d(3) by simp
  have "0 \<le> change_failure_rate r" using d(4) by simp
  moreover have "change_failure_rate r \<le> 100"
  proof (cases "ds = []")
    case True
    then show ?thesis using d(4) by simp
  next
    case False
    then have "0 < (of_nat (length ds) :: rat)" by simp
    moreover have "(of_nat (failed_deployments r) :: rat) \<le> of_nat (length ds)"
      using le by simp
    ultimately have "100 * of_nat (failed_deployments r) / of_nat (length ds) \<le> (100::rat)"
      by (simp add: pos_divide_le_eq)
    then show ?thesis using d(4) False by simp
  qed
  ultimately show ?thesis using d by blast
qed

theorem C8_change_failure_rate_witness:
  "get_dora_metrics demo_env (Some ''2024-01-01'') (Some ''2024-01-31'')
     Timeout one_failed Timeout Timeout \<noteq> Inl ValueError \<and>
   change_failure_rate
     \<lparr>start_date = ''2024-01-01'', end_date = ''2024-01-31'',
      days_period = 30, deployment_freq = 1 / 30, avg_lead_time = 0,
      avg_restore_time = 0, change_failure_rate = 100, devops_level = Low,
      total_deployments = 1, failed_deployments = 1, releases_count = 0,
      merged_mr_count = 0, incidents_count = 0\<rparr> \<le> 100"
  using C8_change_failure_rate [OF demo_run_one_failed] demo_run_one_failed by simp

text \<open>
  Claim C10. In each of the four slots of \<^verbatim>\<open>get_dora_metrics\<close>, a fetch that came
  back absent and a fetch that came back with the empty list give the same result,
  whatever the other inputs are.
\<close>

theorem C10_absent_equals_empty:
  "make_gitlab_request a = JNull \<Longrightarrow> make_gitlab_request b = JArr [] \<Longrightarrow>
   get_dora_metrics E sa ea a o1 o2 o3 = get_dora_metrics E sa ea b o1 o2 o3 \<and>
   get_dora_metrics E sa ea o0 a o2 o3 = get_dora_metrics E sa ea o0 b o2 o3 \<and>
   get_dora_metrics E sa ea o0 o1 a o3 = get_dora_metrics E sa ea o0 o1 b o3 \<and>
   get_dora_metrics E sa ea o0 o1 o2 a = get_dora_metrics E sa ea o0 o1 o2 b"
  by (simp add: get_dora_metrics_def)

theorem C10_absent_equals_empty_witness:
  "make_gitlab_request Timeout = JNull \<and> make_gitlab_request empty_list = JArr [] \<and>
   get_dora_metrics demo_env (Some ''2024-01-01'') (Some ''2024-01-31'')
     Timeout Timeout (ok_list [mr_2_days]) Timeout = Inr demo_report_one \<and>
   get_dora_metrics demo_env (Some ''2024-01-01'') (Some ''2024-01-31'')
     Timeout empty_list (ok_list [mr_2_days]) Timeout = Inr demo_report_one"
proof -
  have a: "make_gitlab_request Timeout = JNull" by simp
  have b: "make_gitlab_request empty_list = JArr []" by (simp add: empty_list_def)
  have run: "get_dora_metrics demo_env (Some ''2024-01-01'') (Some ''2024-01-31'')
               Timeout Timeout (ok_list [mr_2_days]) Timeout = Inr demo_report_one"
    by (simp add: dora_defs demo_defs ok_list_def mr_2_days_def demo_report_one_def)
  from C10_absent_equals_empty [OF a b, of demo_env "Some ''2024-01-01''" "Some ''2024-01-31''"
      Timeout "ok_list [mr_2_days]" Timeout Timeout]
  have "get_dora_metrics demo_env (Some ''2024-01-01'') (Some ''2024-01-31'')
          Timeout Timeout (ok_list [mr_2_days]) Timeout =
        get_dora_metrics demo_env (Some ''2024-01-01'') (Some ''2024-01-31'')
          Timeout empty_list (ok_list [mr_2_days]) Timeout" by (elim conjE)
  with run a b show ?thesis by simp
qed

section \<open>Project health: score, band and absent fetches\<close>

lemma py_get_same_test:
  assumes "py_get x k d1 = Inr a" "py_get x k d2 = Inr b" "d1 \<noteq> v" "d2 \<noteq> v"
  shows "a = v \<longleftrightarrow> b = v"
  using assms by (cases x) (auto split: option.splits)

lemma latest_failed_agrees:
  assumes "latest_pipeline pl = Inr ps" "latest_failed pl = Inr lf"
  shows "lf = (case ps of None \<Rightarrow> False | Some (s, i) \<Rightarrow> s = JStr ''failed'')"
proof (cases "truthy pl")
  case False
  with assms show ?thesis by (simp add: latest_pipeline_def latest_failed_def)
next
  case True
  with assms obtain latest st i s where
    "py_first pl = Inr latest" "py_get latest ''status'' (JStr ''unknown'') = Inr st"
    "ps = Some (st, i)" "py_get latest ''status'' JNull = Inr s" "lf = (s = JStr ''failed'')"
    by (auto simp: latest_pipeline_def latest_failed_def rbind_eq_Inr)
  then show ?thesis
    using py_get_same_test [of latest "''status''" "JStr ''unknown''" st JNull s "JStr ''failed''"]
    by simp
qed

lemma health_Report_score:
  assumes "project_health_report E pid o0 o1 o2 o3 o4 = Inr (Report r)"
  shows "(health_score r, warnings r) =
           penalize (pipeline_failed r) 15 PipelineFailed
             (penalize (open_issues_count r > 50) 25 ManyOpenIssues
               (penalize (open_mrs_count r > 15) 20 ManyOpenMRs
                 (penalize (activity_days r > 30) 30 NoActivity (100, []))))
         \<and> health_status r = health_band (health_score r)"
proof (cases "truthy (make_gitlab_request o0)")
  case False
  with assms show ?thesis by (simp add: project_health_report_def)
next
  case True
  with assms show ?thesis
    unfolding project_health_report_def Let_def
    apply (simp only: if_not_P not_not if_True if_False)
    apply (elim rbind_InrE)
    apply (frule (1) latest_failed_agrees)
    apply (clarsimp simp: pipeline_failed_def)
    done
qed


lemma penalize_chain:
  "penalize d 15 PipelineFailed (penalize c 25 ManyOpenIssues
     (penalize b 20 ManyOpenMRs (penalize a 30 NoActivity (100, [])))) =
   (100 - (if a then 30 else 0) - (if b then 20 else 0) - (if c then 25 else 0)
        - (if d then 15 else 0),
    (if a then [NoActivity] else []) @ (if b then [ManyOpenMRs] else []) @
    (if c then [ManyOpenIssues] else []) @ (if d then [PipelineFailed] else []))"
  by (simp add: penalize_def)

lemma health_Report_warnings:
  assumes "project_health_report E pid o0 o1 o2 o3 o4 = Inr (Report r)"
  shows "warnings r =
           (if activity_days r > 30 then [NoActivity] else []) @
           (if open_mrs_count r > 15 then [ManyOpenMRs] else []) @
           (if open_issues_count r > 50 then [ManyOpenIssues] else []) @
           (if pipeline_failed r then [PipelineFailed] else [])"
    and "health_score r = 100 - sum_list (map penalty_amount (warnings r))"
    and "distinct (warnings r)"
proof -
  from health_Report_score [OF assms]
  have *: "(health_score r, warnings r) =
      (100 - (if activity_days r > 30 then 30 else 0) - (if open_mrs_count r > 15 then 20 else 0)
           - (if open_issues_count r > 50 then 25 else 0) - (if pipeline_failed r then 15 else 0),
       (if activity_days r > 30 then [NoActivity] else []) @
       (if open_mrs_count r > 15 then [ManyOpenMRs] else []) @
       (if open_issues_count r > 50 then [ManyOpenIssues] else []) @
       (if pipeline_failed r then [PipelineFailed] else []))"
    by (simp only: penalize_chain)
  then show w: "warnings r =
           (if activity_days r > 30 then [NoActivity] else []) @
           (if open_mrs_count r > 15 then [ManyOpenMRs] else []) @
           (if open_issues_count r > 50 then [ManyOpenIssues] else []) @
           (if pipeline_failed r then [PipelineFailed] else [])" by simp
  from * have s: "health_score r = 100 - (if activity_days r > 30 then 30 else 0)
           - (if open_mrs_count r > 15 then 20 else 0)
           - (if open_issues_count r > 50 then 25 else 0) - (if pipeline_failed r then 15 else 0)"
    by simp
  show "health_score r = 100 - sum_list (map penalty_amount (warnings r))"
    unfolding s w by simp
  show "distinct (warnings r)" unfolding w by simp
qed

lemma penalty_sum_mono:
  assumes "distinct ws" "distinct ws'" "set ws \<subseteq> set ws'"
  shows "sum_list (map penalty_amount ws) \<le> sum_list (map penalty_amount ws')"
proof -
  have nonneg: "0 \<le> penalty_amount p" for p by (cases p) simp_all
  have "sum_list (map penalty_amount ws) = sum penalty_amount (set ws)"
    using assms(1) by (simp add: sum_list_distinct_conv_sum_set)
  also have "\<dots> \<le> sum penalty_amount (set ws')"
    by (rule sum_mono2) (use assms(3) nonneg in auto)
  also have "\<dots> = sum_list (map penalty_amount ws')"
    using assms(2) by (simp add: sum_list_distinct_conv_sum_set)
  finally show ?thesis .
qed

text \<open>
  Claim C5. In every report of \<^verbatim>\<open>project_health_report\<close> each of the four penalties is
  in the list of warnings exactly when its own predicate holds (no activity for more than
  30 days, more than 15 open merge requests, more than 50 open issues, latest pipeline
  failed), no penalty occurs twice, and the score is 100 minus the amounts of the
  penalties listed (30, 20, 25, 15). Of two reports, the one with more penalties has the
  score that is at most the other's; with all four penalties the score is 10.
\<close>

theorem C5_health_score_penalties:
  assumes "project_health_report E pid o0 o1 o2 o3 o4 = Inr (Report r)"
    and "project_health_report E' pid' p0 p1 p2 p3 p4 = Inr (Report r')"
  shows "(NoActivity \<in> set (warnings r) \<longleftrightarrow> activity_days r > 30) \<and>
         (ManyOpenMRs \<in> set (warnings r) \<longleftrightarrow> open_mrs_count r > 15) \<and>
         (ManyOpenIssues \<in> set (warnings r) \<longleftrightarrow> open_issues_count r > 50) \<and>
         (PipelineFailed \<in> set (warnings r) \<longleftrightarrow> pipeline_failed r) \<and>
         distinct (warnings r) \<and>
         health_score r = 100 - sum_list (map penalty_amount (warnings r)) \<and>
         (set (warnings r) \<subseteq> set (warnings r') \<longrightarrow> health_score r' \<le> health_score r) \<and>
         (set (warnings r) = {NoActivity, ManyOpenMRs, ManyOpenIssues, PipelineFailed} \<longrightarrow>
            health_score r = 10)"
proof -
  note w = health_Report_warnings(1) [OF assms(1)]
  note s = health_Report_warnings(2) [OF assms(1)]
  note d = health_Report_warnings(3) [OF assms(1)]
  note s' = health_Report_warnings(2) [OF assms(2)]
  note d' = health_Report_warnings(3) [OF assms(2)]
  have m: "(NoActivity \<in> set (warnings r) \<longleftrightarrow> activity_days r > 30) \<and>
         (ManyOpenMRs \<in> set (warnings r) \<longleftrightarrow> open_mrs_count r > 15) \<and>
         (ManyOpenIssues \<in> set (warnings r) \<longleftrightarrow> open_issues_count r > 50) \<and>
         (PipelineFailed \<in> set (warnings r) \<longleftrightarrow> pipeline_failed r)"
    by (subst w, subst w, subst w, subst w) simp
  have mono: "health_score r' \<le> health_score r" if "set (warnings r) \<subseteq> set (warnings r')"
    using penalty_sum_mono [OF d d' that] s s' by simp
  have all: "health_score r = 10"
    if "set (warnings r) = {NoActivity, ManyOpenMRs, ManyOpenIssues, PipelineFailed}"
  proof -
    from that m have "activity_days r > 30" "open_mrs_count r > 15" "open_issues_count r > 50"
      "pipeline_failed r" by auto
    with w have "warnings r = [NoActivity, ManyOpenMRs, ManyOpenIssues, PipelineFailed]" by simp
    with s show ?thesis by simp
  qed
  from m d s mono all show ?thesis by blast
qed

text \<open>
  Claim C6. In every report of \<^verbatim>\<open>project_health_report\<close> the band is Excellent exactly
  when the score is at least 80, Attention exactly when it is at least 60 and below 80,
  and Critical exactly when it is below 60.
\<close>

theorem C6_health_band:
  "project_health_report E pid o0 o1 o2 o3 o4 = Inr (Report r) \<Longrightarrow>
   (health_status r = Excellent \<longleftrightarrow> health_score r \<ge> 80) \<and>
   (health_status r = Attention \<longleftrightarrow> 60 \<le> health_score r \<and> health_score r < 80) \<and>
   (health_status r = Critical \<longleftrightarrow> health_score r < 60)"
  using health_Report_score [of E pid o0 o1 o2 o3 o4 r]
  by (simp add: health_band_def)

lemmas health_defs = project_health_report_def Let_def or_empty_def latest_pipeline_def
  latest_failed_def days_since_activity_def penalize_def health_band_def parse_ts_def
  parse_iso_def td_days_def day_us_def

lemma demo_health_worst:
  "project_health_report demo_env ''42'' demo_project many_mrs many_issues one_failed Timeout
   = Inr (Report demo_report_worst)"
  by (simp add: health_defs demo_defs demo_project_def many_mrs_def many_issues_def
        one_failed_def demo_report_worst_def)

lemma demo_health_quiet:
  "project_health_report demo_env ''42'' demo_project Timeout Timeout Timeout Timeout
   = Inr (Report demo_report_quiet)"
  by (simp add: health_defs demo_defs demo_project_def demo_report_quiet_def)

theorem C5_health_score_penalties_witness:
  "set (warnings demo_report_quiet) \<subseteq> set (warnings demo_report_worst) \<and>
   health_score demo_report_worst \<le> health_score demo_report_quiet \<and>
   health_score demo_report_worst = 10"
proof -
  have sub: "set (warnings demo_report_quiet) \<subseteq> set (warnings demo_report_worst)"
    by (simp add: demo_report_quiet_def demo_report_worst_def)
  have all: "set (warnings demo_report_worst) =
             {NoActivity, ManyOpenMRs, ManyOpenIssues, PipelineFailed}"
    by (simp add: demo_report_worst_def)
  from C5_health_score_penalties [OF demo_health_quiet demo_health_worst] sub
  have "health_score demo_report_worst \<le> health_score demo_report_quiet" by blast
  moreover from C5_health_score_penalties [OF demo_health_worst demo_health_quiet] all
  have "health_score demo_report_worst = 10" by blast
  ultimately show ?thesis using sub by simp
qed

theorem C6_health_band_witness:
  "health_status demo_report_quiet = Attention \<and> 60 \<le> health_score demo_report_quiet \<and>
   health_score demo_report_quiet < 80"
  using C6_health_band [OF demo_health_quiet] by (simp add: demo_report_quiet_def)

lemma failed_fetch_absent: "failed_fetch out \<Longrightarrow> make_gitlab_request out = JNull"
  by (cases out) (auto simp: failed_fetch_def)

lemma Report_truthy:
  assumes "project_health_report E pid o0 o1 o2 o3 o4 = Inr (Report r)"
  shows "truthy (make_gitlab_request o0)"
  using assms by (cases "truthy (make_gitlab_request o0)") (simp_all add: project_health_report_def)

lemma empty_blocks [simp]:
  "latest_pipeline (JArr []) = Inr None"
  "latest_failed (JArr []) = Inr False"
  by (simp_all add: latest_pipeline_def latest_failed_def)

lemma health_absent_mrs:
  assumes "project_health_report E pid o0 o1 o2 o3 o4 = Inr (Report r)"
    and "make_gitlab_request a = JNull"
  shows "\<exists>r1. project_health_report E pid o0 a o2 o3 o4 = Inr (Report r1) \<and>
           open_mrs_count r1 = 0 \<and> ManyOpenMRs \<notin> set (warnings r1) \<and>
           open_issues_count r1 = open_issues_count r \<and>
           pipeline_status r1 = pipeline_status r \<and>
           recent_events_count r1 = recent_events_count r \<and> event_lines r1 = event_lines r \<and>
           activity_days r1 = activity_days r"
  using assms(1) Report_truthy [OF assms(1)] assms(2)
  unfolding project_health_report_def Let_def
  apply (simp only: if_not_P not_not if_True if_False)
  apply (elim rbind_InrE)
  apply (clarsimp simp: penalize_def)
  done

lemma health_absent_issues:
  assumes "project_health_report E pid o0 o1 o2 o3 o4 = Inr (Report r)"
    and "make_gitlab_request a = JNull"
  shows "\<exists>r1. project_health_report E pid o0 o1 a o3 o4 = Inr (Report r1) \<and>
           open_issues_count r1 = 0 \<and> ManyOpenIssues \<notin> set (warnings r1) \<and>
           open_mrs_count r1 = open_mrs_count r \<and>
           pipeline_status r1 = pipeline_status r \<and>
           recent_events_count r1 = recent_events_count r \<and> event_lines r1 = event_lines r \<and>
           activity_days r1 = activity_days r"
  using assms(1) Report_truthy [OF assms(1)] assms(2)
  unfolding project_health_report_def Let_def
  apply (simp only: if_not_P not_not if_True if_False)
  apply (elim rbind_InrE)
  apply (clarsimp simp: penalize_def)
  done

lemma health_absent_pipelines:
  assumes "project_health_report E pid o0 o1 o2 o3 o4 = Inr (Report r)"
    and "make_gitlab_request a = JNull"
  shows "\<exists>r1. project_health_report E pid o0 o1 o2 a o4 = Inr (Report r1) \<and>
           pipeline_status r1 = None \<and> PipelineFailed \<notin> set (warnings r1) \<and>
           open_mrs_count r1 = open_mrs_count r \<and>
           open_issues_count r1 = open_issues_count r \<and>
           recent_events_count r1 = recent_events_count r \<and> event_lines r1 = event_lines r \<and>
           activity_days r1 = activity_days r"
  using assms(1) Report_truthy [OF assms(1)] assms(2)
  unfolding project_health_report_def Let_def
  apply (simp only: if_not_P not_not if_True if_False)
  apply (elim rbind_InrE)
  apply (clarsimp simp: penalize_def)
  done

lemma health_absent_events:
  assumes "project_health_report E pid o0 o1 o2 o3 o4 = Inr (Report r)"
    and "make_gitlab_request a = JNull"
  shows "\<exists>r1. project_health_report E pid o0 o1 o2 o3 a = Inr (Report r1) \<and>
           recent_events_count r1 = 0 \<and> event_lines r1 = [] \<and>
           open_mrs_count r1 = open_mrs_count r \<and>
           open_issues_count r1 = open_issues_count r \<and>
           pipeline_status r1 = pipeline_status r \<and>
           warnings r1 = warnings r \<and> health_score r1 = health_score r \<and>
           activity_days r1 = activity_days r"
  using assms(1) Report_truthy [OF assms(1)] assms(2)
  unfolding project_health_report_def Let_def
  apply (simp only: if_not_P not_not if_True if_False)
  apply (elim rbind_InrE)
  apply (clarsimp simp: penalize_def)
  done

lemma is_report_iff: "is_report x \<longleftrightarrow> (\<exists>r. x = Inr (Report r))"
  by (auto simp: is_report_def split: sum.splits health_result.splits)

lemma health_not_found:
  "make_gitlab_request o0 = JNull \<Longrightarrow>
   project_health_report E pid o0 o1 o2 o3 o4 = Inr (NotFound pid)"
  by (simp add: project_health_report_def)

lemma is_report_slot1:
  assumes "is_report (project_health_report E pid o0 o1 o2 o3 o4)"
    and "make_gitlab_request a = JNull \<or> a = o1"
  shows "is_report (project_health_report E pid o0 a o2 o3 o4)"
  using assms health_absent_mrs [of E pid o0 o1 o2 o3 o4 _ a]
  unfolding is_report_iff by blast

lemma is_report_slot2:
  assumes "is_report (project_health_report E pid o0 o1 o2 o3 o4)"
    and "make_gitlab_request a = JNull \<or> a = o2"
  shows "is_report (project_health_report E pid o0 o1 a o3 o4)"
  using assms health_absent_issues [of E pid o0 o1 o2 o3 o4 _ a]
  unfolding is_report_iff by blast

lemma is_report_slot3:
  assumes "is_report (project_health_report E pid o0 o1 o2 o3 o4)"
    and "make_gitlab_request a = JNull \<or> a = o3"
  shows "is_report (project_health_report E pid o0 o1 o2 a o4)"
  using assms health_absent_pipelines [of E pid o0 o1 o2 o3 o4 _ a]
  unfolding is_report_iff by blast

lemma is_report_slot4:
  assumes "is_report (project_health_report E pid o0 o1 o2 o3 o4)"
    and "make_gitlab_request a = JNull \<or> a = o4"
  shows "is_report (project_health_report E pid o0 o1 o2 o3 a)"
  using assms health_absent_events [of E pid o0 o1 o2 o3 o4 _ a]
  unfolding is_report_iff by blast

text \<open>
  Claim C2. When the project lookup is absent, \<^verbatim>\<open>project_health_report\<close> returns the
  not-found message for the project id: no exception and no report. When a report is
  produced for some sub-collections, it is still produced after any of the four
  sub-collections is replaced by an absent one.
\<close>

theorem C2_not_found_or_report:
  "(make_gitlab_request o0 = JNull \<longrightarrow>
      project_health_report E pid o0 o1 o2 o3 o4 = Inr (NotFound pid)) \<and>
   (is_report (project_health_report E pid o0 o1 o2 o3 o4) \<and>
    (make_gitlab_request a1 = JNull \<or> a1 = o1) \<and>
    (make_gitlab_request a2 = JNull \<or> a2 = o2) \<and>
    (make_gitlab_request a3 = JNull \<or> a3 = o3) \<and>
    (make_gitlab_request a4 = JNull \<or> a4 = o4) \<longrightarrow>
      is_report (project_health_report E pid o0 a1 a2 a3 a4))"
proof (intro conjI impI)
  assume "make_gitlab_request o0 = JNull"
  then show "project_health_report E pid o0 o1 o2 o3 o4 = Inr (NotFound pid)"
    by (rule health_not_found)
next
  assume h: "is_report (project_health_report E pid o0 o1 o2 o3 o4) \<and>
    (make_gitlab_request a1 = JNull \<or> a1 = o1) \<and>
    (make_gitlab_request a2 = JNull \<or> a2 = o2) \<and>
    (make_gitlab_request a3 = JNull \<or> a3 = o3) \<and>
    (make_gitlab_request a4 = JNull \<or> a4 = o4)"
  then have "is_report (project_health_report E pid o0 a1 o2 o3 o4)"
    using is_report_slot1 by blast
  then have "is_report (project_health_report E pid o0 a1 a2 o3 o4)"
    using h is_report_slot2 by blast
  then have "is_report (project_health_report E pid o0 a1 a2 a3 o4)"
    using h is_report_slot3 by blast
  then show "is_report (project_health_report E pid o0 a1 a2 a3 a4)"
    using h is_report_slot4 by blast
qed

theorem C2_not_found_or_report_witness:
  "project_health_report demo_env ''42'' Timeout many_mrs many_issues one_failed Timeout
     = Inr (NotFound ''42'') \<and>
   is_report (project_health_report demo_env ''42'' demo_project
                many_mrs many_issues one_failed Timeout) \<and>
   is_report (project_health_report demo_env ''42'' demo_project
                Timeout Timeout Timeout Timeout)"
proof -
  have a: "make_gitlab_request Timeout = JNull" by simp
  have r: "is_report (project_health_report demo_env ''42'' demo_project
                many_mrs many_issues one_failed Timeout)"
    by (simp add: demo_health_worst is_report_def)
  from C2_not_found_or_report [of Timeout demo_env "''42''" many_mrs many_issues one_failed Timeout] a
  have 1: "project_health_report demo_env ''42'' Timeout many_mrs many_issues one_failed Timeout
     = Inr (NotFound ''42'')" by blast
  from C2_not_found_or_report [of demo_project demo_env "''42''" many_mrs many_issues one_failed Timeout
             Timeout Timeout Timeout Timeout] a r
  have 2: "is_report (project_health_report demo_env ''42'' demo_project
                Timeout Timeout Timeout Timeout)" by blast
  from 1 2 r show ?thesis by blast
qed

text \<open>
  Claim C9. \<^verbatim>\<open>make_gitlab_request\<close> returns \<^verbatim>\<open>None\<close> on a transport error, on a
  timeout and on every status that is not 2xx (as a function of the outcome it has a value
  on every outcome). When \<^verbatim>\<open>project_health_report\<close> produces a report and the fetch of
  one sub-collection is replaced by a failed one, a report is still produced: without
  merge requests their count is 0 and the merge-request penalty is not applied, without
  issues likewise, without pipelines the status is unknown and the pipeline penalty is
  not applied, without events their count is 0 and no event line is listed.
\<close>

theorem C9_failed_fetch_defaults:
  "make_gitlab_request TransportError = JNull \<and>
   make_gitlab_request Timeout = JNull \<and>
   (\<forall>status body. \<not> (200 \<le> status \<and> status < 300) \<longrightarrow>
      make_gitlab_request (Response status body) = JNull) \<and>
   (\<forall>f r. failed_fetch f \<and> project_health_report E pid o0 o1 o2 o3 o4 = Inr (Report r) \<longrightarrow>
      make_gitlab_request f = JNull \<and>
      (\<exists>r1. project_health_report E pid o0 f o2 o3 o4 = Inr (Report r1) \<and>
            open_mrs_count r1 = 0 \<and> ManyOpenMRs \<notin> set (warnings r1)) \<and>
      (\<exists>r2. project_health_report E pid o0 o1 f o3 o4 = Inr (Report r2) \<and>
            open_issues_count r2 = 0 \<and> ManyOpenIssues \<notin> set (warnings r2)) \<and>
      (\<exists>r3. project_health_report E pid o0 o1 o2 f o4 = Inr (Report r3) \<and>
            pipeline_status r3 = None \<and> PipelineFailed \<notin> set (warnings r3)) \<and>
      (\<exists>r4. project_health_report E pid o0 o1 o2 o3 f = Inr (Report r4) \<and>
            recent_events_count r4 = 0 \<and> event_lines r4 = []))"
proof (intro conjI allI impI)
  fix f r
  assume h: "failed_fetch f \<and> project_health_report E pid o0 o1 o2 o3 o4 = Inr (Report r)"
  then have a: "make_gitlab_request f = JNull" and run: "project_health_report E pid o0 o1 o2 o3 o4 = Inr (Report r)"
    by (simp_all add: failed_fetch_absent)
  show "make_gitlab_request f = JNull" by (rule a)
  show "\<exists>r1. project_health_report E pid o0 f o2 o3 o4 = Inr (Report r1) \<and>
            open_mrs_count r1 = 0 \<and> ManyOpenMRs \<notin> set (warnings r1)"
    using health_absent_mrs [OF run a] by blast
  show "\<exists>r2. project_health_report E pid o0 o1 f o3 o4 = Inr (Report r2) \<and>
            open_issues_count r2 = 0 \<and> ManyOpenIssues \<notin> set (warnings r2)"
    using health_absent_issues [OF run a] by blast
  show "\<exists>r3. project_health_report E pid o0 o1 o2 f o4 = Inr (Report r3) \<and>
            pipeline_status r3 = None \<and> PipelineFailed \<notin> set (warnings r3)"
    using health_absent_pipelines [OF run a] by blast
  show "\<exists>r4. project_health_report E pid o0 o1 o2 o3 f = Inr (Report r4) \<and>
            recent_events_count r4 = 0 \<and> event_lines r4 = []"
    using health_absent_events [OF run a] by blast
qed auto

theorem C9_failed_fetch_defaults_witness:
  "failed_fetch server_error \<and>
   project_health_report demo_env ''42'' demo_project many_mrs many_issues one_failed Timeout
     = Inr (Report demo_report_worst) \<and>
   (\<exists>r1. project_health_report demo_env ''42'' demo_project server_error many_issues one_failed
           Timeout = Inr (Report r1) \<and> open_mrs_count r1 = 0)"
proof -
  have f: "failed_fetch server_error" by (simp add: failed_fetch_def server_error_def)
  from C9_failed_fetch_defaults [of demo_env "''42''" demo_project many_mrs many_issues one_failed Timeout]
    f demo_health_worst
  have "\<exists>r1. project_health_report demo_env ''42'' demo_project server_error many_issues
           one_failed Timeout = Inr (Report r1) \<and> open_mrs_count r1 = 0 \<and>
           ManyOpenMRs \<notin> set (warnings r1)"
    by blast
  with f demo_health_worst show ?thesis by blast
qed

section \<open>DORA metrics: the lead time\<close>

lemma lead_times_Inr:
  "lead_times E mrs = Inr lts \<Longrightarrow>
   (\<forall>mr\<in>set mrs. \<exists>kvs. mr = JObj kvs) \<and>
   (\<exists>ds. list_all2 (\<lambda>mr d. mr_lead_us E mr = Inr d) (filter is_merged mrs) ds \<and>
         lts = map td_days ds)"
proof (induction mrs arbitrary: lts)
  case Nil
  then show ?case by simp
next
  case (Cons mr mrs)
  from Cons.prems obtain c created_at m cur more where
    c: "py_item mr ''created_at'' = Inr c" and t: "parse_ts E c = Inr created_at"
    and m: "py_get mr ''merged_at'' JNull = Inr m"
    and cur: "(if truthy m
            then rbind (py_item mr ''merged_at'') (\<lambda>v.
                 rbind (parse_ts E v) (\<lambda>merged_at.
                 rbind (dt_sub merged_at created_at) (\<lambda>d. Inr [td_days d])))
            else Inr []) = Inr cur"
    and more: "lead_times E mrs = Inr more" and lts: "lts = cur @ more"
    by (auto simp: rbind_eq_Inr)
  from Cons.IH [OF more] obtain ds where
    objs: "\<forall>mr\<in>set mrs. \<exists>kvs. mr = JObj kvs"
    and ds: "list_all2 (\<lambda>mr d. mr_lead_us E mr = Inr d) (filter is_merged mrs) ds"
    and mo: "more = map td_days ds" by blast
  from c have obj: "\<exists>kvs. mr = JObj kvs" by (cases mr) simp_all
  show ?case
  proof (cases "truthy m")
    case False
    with cur m have "cur = []" "\<not> is_merged mr" by (simp_all add: is_merged_def)
    with objs obj ds mo lts show ?thesis by auto
  next
    case True
    with cur obtain v merged_at d where
      "py_item mr ''merged_at'' = Inr v" "parse_ts E v = Inr merged_at"
      "dt_sub merged_at created_at = Inr d" "cur = [td_days d]"
      by (auto simp: rbind_eq_Inr)
    with c t have "mr_lead_us E mr = Inr d" by (simp add: mr_lead_us_def)
    moreover from True m have "is_merged mr" by (simp add: is_merged_def)
    ultimately have "list_all2 (\<lambda>mr d. mr_lead_us E mr = Inr d)
                       (filter is_merged (mr # mrs)) (d # ds)"
      using ds by simp
    moreover have "lts = map td_days (d # ds)" using lts mo \<open>cur = [td_days d]\<close> by simp
    ultimately show ?thesis using objs obj by (intro conjI exI [of _ "d # ds"]) auto
  qed
qed

lemma mean_or_0_Inr:
  "mean_or_0 xs = Inr a \<Longrightarrow> a = (if xs = [] then 0 else sum_list xs / of_nat (length xs))"
  by (auto simp: mean_or_0_def py_div_def split: if_splits)

lemma slice_iter_objects:
  assumes "py_slice n x = Inr y" "py_iter y = Inr mrs" "\<forall>mr\<in>set mrs. \<exists>kvs. mr = JObj kvs"
  shows "(\<exists>xs. x = JArr xs \<and> mrs = take n xs) \<or> (mrs = [] \<and> (\<exists>s. x = JStr s))"
proof (cases x)
  case (JStr s)
  with assms show ?thesis by (cases "take n s") auto
qed (use assms in auto)

lemma get_dora_lead:
  assumes "get_dora_metrics E sa ea o0 o1 o2 o3 = Inr r"
  shows "\<exists>mrs ds. or_empty (make_gitlab_request o2) = JArr mrs \<and>
           merged_mr_count r = length mrs \<and>
           list_all2 (\<lambda>mr d. mr_lead_us E mr = Inr d) (filter is_merged (take 50 mrs)) ds \<and>
           avg_lead_time r =
             (if ds = [] then 0
              else sum_list (map (\<lambda>d. of_int (td_days d)) ds) / of_nat (length ds))"
proof -
  let ?mr = "or_empty (make_gitlab_request o2)"
  from assms obtain first50 mrs lts lead n where
    sl: "py_slice 50 ?mr = Inr first50" and it: "py_iter first50 = Inr mrs"
    and lt: "lead_times E mrs = Inr lts" and me: "mean_or_0 (map of_int lts) = Inr lead"
    and n: "py_len ?mr = Inr n"
    and r: "avg_lead_time r = lead" "merged_mr_count r = n"
    unfolding get_dora_metrics_def Let_def
    apply (elim rbind_InrE)
    apply auto
    done
  from lead_times_Inr [OF lt] obtain ds where
    objs: "\<forall>mr\<in>set mrs. \<exists>kvs. mr = JObj kvs"
    and ds: "list_all2 (\<lambda>mr d. mr_lead_us E mr = Inr d) (filter is_merged mrs) ds"
    and lts: "lts = map td_days ds" by blast
  have tr: "\<not> truthy ?mr \<Longrightarrow> ?mr = JArr []" by (auto simp: or_empty_def split: if_splits)
  from slice_iter_objects [OF sl it objs] obtain xs where xs: "?mr = JArr xs" "mrs = take 50 xs"
  proof
    assume "\<exists>xs. ?mr = JArr xs \<and> mrs = take 50 xs"
    then show ?thesis using that by blast
  next
    assume a: "mrs = [] \<and> (\<exists>s. ?mr = JStr s)"
    then obtain s where s: "?mr = JStr s" by blast
    with sl it a have "s = []" by auto
    with s tr show ?thesis by simp
  qed
  from mean_or_0_Inr [OF me] lts
  have "lead = (if ds = [] then 0
              else sum_list (map (\<lambda>d. of_int (td_days d)) ds) / of_nat (length ds))"
    by (simp add: comp_def)
  with xs ds r n show ?thesis by auto
qed

lemma lead_days_of_list_all2:
  "list_all2 (\<lambda>mr d. mr_lead_us E mr = Inr d) ms ds \<Longrightarrow>
   map (\<lambda>d. rat_of_int (td_days d)) ds = map (lead_days E) ms \<and>
   (\<forall>mr\<in>set ms. \<exists>d. mr_lead_us E mr = Inr d)"
  by (induction rule: list_all2_induct) (simp_all add: lead_days_def)

lemma sum_list_all_two:
  "\<forall>x\<in>set xs. f x = (2::rat) \<Longrightarrow> sum_list (map f xs) = 2 * of_nat (length xs)"
  by (induction xs) (simp_all add: algebra_simps)

text \<open>
  Claim C4. A run of \<^verbatim>\<open>get_dora_metrics\<close> that produces its report
  was handed a list of merge requests. Of the first 50 fetched, those with a non-empty
  \<^verbatim>\<open>merged_at\<close> each have a lead time, and the average lead time of the report is the mean
  of these lead times cut down to whole days, or 0 when there is none; when each of them
  is exactly two days, and there is at least one, the average is exactly 2.
\<close>

theorem C4_lead_time_whole_days:
  "get_dora_metrics E sa ea o0 o1 o2 o3 = Inr r \<Longrightarrow>
   \<exists>mrs. or_empty (make_gitlab_request o2) = JArr mrs \<and>
     (let ms = filter is_merged (take 50 mrs) in
        (\<forall>mr\<in>set ms. \<exists>d. mr_lead_us E mr = Inr d) \<and>
        avg_lead_time r =
          (if ms = [] then 0 else sum_list (map (lead_days E) ms) / of_nat (length ms)) \<and>
        (ms \<noteq> [] \<and> (\<forall>mr\<in>set ms. mr_lead_us E mr = Inr (2 * day_us)) \<longrightarrow>
           avg_lead_time r = 2))"
proof -
  assume run: "get_dora_metrics E sa ea o0 o1 o2 o3 = Inr r"
  from get_dora_lead [OF run] obtain mrs ds where
    a: "or_empty (make_gitlab_request o2) = JArr mrs"
    and b: "list_all2 (\<lambda>mr d. mr_lead_us E mr = Inr d) (filter is_merged (take 50 mrs)) ds"
    and c: "avg_lead_time r =
             (if ds = [] then 0
              else sum_list (map (\<lambda>d. of_int (td_days d)) ds) / of_nat (length ds))"
    by blast
  let ?ms = "filter is_merged (take 50 mrs)"
  from lead_days_of_list_all2 [OF b]
  have m: "map (\<lambda>d. rat_of_int (td_days d)) ds = map (lead_days E) ?ms"
    and ex: "\<forall>mr\<in>set ?ms. \<exists>d. mr_lead_us E mr = Inr d" by simp_all
  from b have len: "length ds = length ?ms" by (simp add: list_all2_lengthD)
  then have emp: "ds = [] \<longleftrightarrow> ?ms = []" by (metis length_0_conv)
  from c m len emp
  have avg: "avg_lead_time r =
          (if ?ms = [] then 0 else sum_list (map (lead_days E) ?ms) / of_nat (length ?ms))"
    by simp
  have two: "avg_lead_time r = 2"
    if ne: "?ms \<noteq> []" and all: "\<forall>mr\<in>set ?ms. mr_lead_us E mr = Inr (2 * day_us)"
  proof -
    from all have "\<forall>mr\<in>set ?ms. lead_days E mr = 2"
      by (simp add: lead_days_def td_days_def day_us_def)
    then have "sum_list (map (lead_days E) ?ms) = 2 * of_nat (length ?ms)"
      by (rule sum_list_all_two)
    with avg ne show ?thesis by simp
  qed
  from a ex avg two show ?thesis unfolding Let_def by blast
qed

lemma demo_run_ten_merged:
  "get_dora_metrics demo_env (Some ''2024-01-01'') (Some ''2024-01-31'')
     Timeout Timeout (ok_list ten_merged) Timeout = Inr demo_report_lead"
  by (simp add: dora_defs demo_defs ok_list_def ten_merged_def mr_2_days_def
        demo_report_lead_def)

theorem C4_lead_time_whole_days_witness:
  "get_dora_metrics demo_env (Some ''2024-01-01'') (Some ''2024-01-31'')
     Timeout Timeout (ok_list ten_merged) Timeout = Inr demo_report_lead \<and>
   length ten_merged = 10 \<and>
   list_all is_merged ten_merged \<and>
   list_all (\<lambda>mr. mr_lead_us demo_env mr = Inr (2 * day_us)) ten_merged \<and>
   avg_lead_time demo_report_lead = 2"
proof -
  have len: "length ten_merged = 10" by (simp add: ten_merged_def)
  have mer: "list_all is_merged ten_merged"
    by (simp add: ten_merged_def mr_2_days_def is_merged_def)
  have two: "list_all (\<lambda>mr. mr_lead_us demo_env mr = Inr (2 * day_us)) ten_merged"
    by (simp add: ten_merged_def mr_2_days_def mr_lead_us_def parse_ts_def parse_iso_def
          demo_defs day_us_def)
  from C4_lead_time_whole_days [OF demo_run_ten_merged] obtain mrs where
    slot: "or_empty (make_gitlab_request (ok_list ten_merged)) = JArr mrs"
    and imp: "filter is_merged (take 50 mrs) \<noteq> [] \<and>
              (\<forall>mr\<in>set (filter is_merged (take 50 mrs)).
                 mr_lead_us demo_env mr = Inr (2 * day_us)) \<longrightarrow>
              avg_lead_time demo_report_lead = 2"
    unfolding Let_def by blast
  from slot have mrs: "mrs = ten_merged"
    by (simp add: ok_list_def or_empty_def split: if_splits)
  from mer len have ms: "filter is_merged (take 50 mrs) = ten_merged"
    unfolding mrs by (simp add: list_all_iff)
  have "ten_merged \<noteq> []" using len by auto
  with imp two have "avg_lead_time demo_report_lead = 2"
    unfolding ms by (simp add: list_all_iff)
  with demo_run_ten_merged len mer two show ?thesis by simp
qed

text \<open>
  The average is not the mean of the exact durations: one merge request merged 36 hours
  after its creation has a lead time of 1.5 days, and the report says 1.
\<close>

theorem C4_counterexample:
  "map_sum id avg_lead_time
     (get_dora_metrics demo_env (Some ''2024-01-01'') (Some ''2024-01-31'')
        Timeout Timeout (ok_list [mr_36_hours]) Timeout) = Inr 1 \<and>
   map_sum id exact_days (mr_lead_us demo_env mr_36_hours) = Inr (3 / 2)"
  by (simp add: dora_defs demo_defs ok_list_def mr_36_hours_def mr_lead_us_def exact_days_def)

section \<open>DORA metrics: records without a terminal timestamp\<close>

lemma lead_times_skip_one:
  assumes "created_ok E rec" "no_terminal ''merged_at'' rec"
  shows "lead_times E (rec # ys) = lead_times E ys"
proof -
  from assms(1) obtain c t where "py_item rec ''created_at'' = Inr c" "parse_ts E c = Inr t"
    by (auto simp: created_ok_def rbind_def split: sum.splits)
  moreover from assms(2) obtain m where "py_get rec ''merged_at'' JNull = Inr m" "\<not> truthy m"
    by (auto simp: no_terminal_def split: sum.splits)
  ultimately show ?thesis by (cases "lead_times E ys") simp_all
qed

lemma lead_times_skip:
  assumes "created_ok E rec" "no_terminal ''merged_at'' rec"
  shows "lead_times E (xs @ rec # ys) = lead_times E (xs @ ys)"
proof (induction xs)
  case Nil
  show ?case using lead_times_skip_one [OF assms] by simp
next
  case (Cons x xs)
  then show ?case by simp
qed

lemma restore_times_skip_one:
  assumes "created_ok E rec" "no_terminal ''closed_at'' rec"
  shows "restore_times E (rec # ys) = restore_times E ys"
proof -
  from assms(1) obtain c t where "py_item rec ''created_at'' = Inr c" "parse_ts E c = Inr t"
    by (auto simp: created_ok_def rbind_def split: sum.splits)
  moreover from assms(2) obtain m where "py_get rec ''closed_at'' JNull = Inr m" "\<not> truthy m"
    by (auto simp: no_terminal_def split: sum.splits)
  ultimately show ?thesis by (cases "restore_times E ys") simp_all
qed

lemma restore_times_skip:
  assumes "created_ok E rec" "no_terminal ''closed_at'' rec"
  shows "restore_times E (xs @ rec # ys) = restore_times E (xs @ ys)"
proof (induction xs)
  case Nil
  show ?case using restore_times_skip_one [OF assms] by simp
next
  case (Cons x xs)
  then show ?case by simp
qed

lemma or_empty_ok_list [simp]: "or_empty (make_gitlab_request (ok_list xs)) = JArr xs"
  by (simp add: ok_list_def or_empty_def)

lemma get_dora_same_lead:
  assumes "get_dora_metrics E sa ea o0 o1 (ok_list as) o3 = Inr r"
    and "lead_times E (take 50 bs) = lead_times E (take 50 as)"
  shows "get_dora_metrics E sa ea o0 o1 (ok_list bs) o3 =
           Inr (r\<lparr>merged_mr_count := length bs\<rparr>)"
  using assms
  unfolding get_dora_metrics_def Let_def or_empty_ok_list
  apply (elim rbind_InrE)
  apply clarsimp
  done

lemma get_dora_same_restore:
  assumes "get_dora_metrics E sa ea o0 o1 o2 (ok_list as) = Inr r"
    and "restore_times E bs = restore_times E as"
  shows "get_dora_metrics E sa ea o0 o1 o2 (ok_list bs) =
           Inr (r\<lparr>incidents_count := length bs\<rparr>)"
  using assms
  unfolding get_dora_metrics_def Let_def or_empty_ok_list
  apply (elim rbind_InrE)
  apply clarsimp
  done

lemma get_dora_counts:
  assumes "get_dora_metrics E sa ea o0 o1 o2 o3 = Inr r"
  shows "py_len (or_empty (make_gitlab_request o2)) = Inr (merged_mr_count r)"
    and "py_len (or_empty (make_gitlab_request o3)) = Inr (incidents_count r)"
  using assms
  unfolding get_dora_metrics_def Let_def
  by (elim rbind_InrE; clarsimp)+

lemma get_dora_skip_mr:
  assumes "get_dora_metrics E sa ea o0 o1 (ok_list (xs @ ys)) o3 = Inr r"
    and "created_ok E rec" "no_terminal ''merged_at'' rec"
    and "length xs + length ys < 50 \<or> 50 \<le> length xs"
  shows "get_dora_metrics E sa ea o0 o1 (ok_list (xs @ rec # ys)) o3 =
           Inr (r\<lparr>merged_mr_count := merged_mr_count r + 1\<rparr>)"
proof -
  have lt: "lead_times E (take 50 (xs @ rec # ys)) = lead_times E (take 50 (xs @ ys))"
  proof (cases "50 \<le> length xs")
    case True
    then show ?thesis by simp
  next
    case False
    with assms(4) have "length xs + length ys < 50" by simp
    then have "take 50 (xs @ rec # ys) = xs @ rec # ys" "take 50 (xs @ ys) = xs @ ys"
      by simp_all
    then show ?thesis using lead_times_skip [OF assms(2,3)] by simp
  qed
  from get_dora_counts(1) [OF assms(1)] have "merged_mr_count r = length xs + length ys"
    by simp
  with get_dora_same_lead [OF assms(1) lt] show ?thesis by simp
qed

lemma get_dora_skip_incident:
  assumes "get_dora_metrics E sa ea o0 o1 o2 (ok_list (xs @ ys)) = Inr r"
    and "created_ok E rec" "no_terminal ''closed_at'' rec"
  shows "get_dora_metrics E sa ea o0 o1 o2 (ok_list (xs @ rec # ys)) =
           Inr (r\<lparr>incidents_count := incidents_count r + 1\<rparr>)"
proof -
  from get_dora_counts(2) [OF assms(1)] have "incidents_count r = length xs + length ys"
    by simp
  with get_dora_same_restore [OF assms(1) restore_times_skip [OF assms(2,3)]]
  show ?thesis by simp
qed

text \<open>
  Claim C3. In \<^verbatim>\<open>get_dora_metrics\<close>, a merge request whose
  \<^verbatim>\<open>created_at\<close> parses and whose \<^verbatim>\<open>merged_at\<close> is absent, null or empty is left out of
  the lead times only: when the run without the record produces a report, the run with
  it produces the same report with the count of merge requests one higher, provided the
  record does not push another one out of the first 50. An incident whose
  \<^verbatim>\<open>created_at\<close> parses and whose \<^verbatim>\<open>closed_at\<close> is absent, null or empty is left out of
  the restore times only, in the same way.
\<close>

theorem C3_no_terminal_timestamp_excluded:
  "created_ok E rec \<Longrightarrow>
   (no_terminal ''merged_at'' rec \<and> (length xs + length ys < 50 \<or> 50 \<le> length xs) \<and>
    get_dora_metrics E sa ea o0 o1 (ok_list (xs @ ys)) o3 = Inr r \<longrightarrow>
      get_dora_metrics E sa ea o0 o1 (ok_list (xs @ rec # ys)) o3 =
        Inr (r\<lparr>merged_mr_count := merged_mr_count r + 1\<rparr>)) \<and>
   (no_terminal ''closed_at'' rec \<and>
    get_dora_metrics E sa ea o0 o1 o2 (ok_list (xs @ ys)) = Inr r \<longrightarrow>
      get_dora_metrics E sa ea o0 o1 o2 (ok_list (xs @ rec # ys)) =
        Inr (r\<lparr>incidents_count := incidents_count r + 1\<rparr>))"
  using get_dora_skip_mr get_dora_skip_incident by blast

lemma demo_run_one_merged:
  "get_dora_metrics demo_env (Some ''2024-01-01'') (Some ''2024-01-31'')
     Timeout Timeout (ok_list [mr_2_days]) Timeout = Inr demo_report_one"
  by (simp add: dora_defs demo_defs ok_list_def mr_2_days_def demo_report_one_def)

lemma demo_run_one_merged_no_incident:
  "get_dora_metrics demo_env (Some ''2024-01-01'') (Some ''2024-01-31'')
     Timeout Timeout (ok_list [mr_2_days]) (ok_list []) = Inr demo_report_one"
  by (simp add: dora_defs demo_defs ok_list_def mr_2_days_def demo_report_one_def)

theorem C3_no_terminal_timestamp_excluded_witness:
  "created_ok demo_env mr_not_merged \<and> no_terminal ''merged_at'' mr_not_merged \<and>
   created_ok demo_env incident_not_closed \<and> no_terminal ''closed_at'' incident_not_closed \<and>
   get_dora_metrics demo_env (Some ''2024-01-01'') (Some ''2024-01-31'')
     Timeout Timeout (ok_list [mr_2_days]) Timeout = Inr demo_report_one \<and>
   get_dora_metrics demo_env (Some ''2024-01-01'') (Some ''2024-01-31'')
     Timeout Timeout (ok_list [mr_2_days, mr_not_merged]) Timeout =
     Inr (demo_report_one\<lparr>merged_mr_count := 2\<rparr>) \<and>
   get_dora_metrics demo_env (Some ''2024-01-01'') (Some ''2024-01-31'')
     Timeout Timeout (ok_list [mr_2_days]) (ok_list [incident_not_closed]) =
     Inr (demo_report_one\<lparr>incidents_count := 1\<rparr>)"
proof -
  have c1: "created_ok demo_env mr_not_merged"
    by (simp add: created_ok_def mr_not_merged_def parse_ts_def parse_iso_def demo_defs)
  have n1: "no_terminal ''merged_at'' mr_not_merged"
    by (simp add: no_terminal_def mr_not_merged_def)
  have c2: "created_ok demo_env incident_not_closed"
    by (simp add: created_ok_def incident_not_closed_def parse_ts_def parse_iso_def demo_defs)
  have n2: "no_terminal ''closed_at'' incident_not_closed"
    by (simp add: no_terminal_def incident_not_closed_def)
  from C3_no_terminal_timestamp_excluded [OF c1, of "[mr_2_days]" "[]"
      "Some ''2024-01-01''" "Some ''2024-01-31''" Timeout Timeout Timeout demo_report_one]
    n1 demo_run_one_merged
  have a: "get_dora_metrics demo_env (Some ''2024-01-01'') (Some ''2024-01-31'')
     Timeout Timeout (ok_list [mr_2_days, mr_not_merged]) Timeout =
     Inr (demo_report_one\<lparr>merged_mr_count := 2\<rparr>)"
    by (simp add: demo_report_one_def)
  from C3_no_terminal_timestamp_excluded [OF c2, of "[]" "[]"
      "Some ''2024-01-01''" "Some ''2024-01-31''" Timeout Timeout _ demo_report_one
      "ok_list [mr_2_days]"]
    n2 demo_run_one_merged_no_incident
  have b: "get_dora_metrics demo_env (Some ''2024-01-01'') (Some ''2024-01-31'')
     Timeout Timeout (ok_list [mr_2_days]) (ok_list [incident_not_closed]) =
     Inr (demo_report_one\<lparr>incidents_count := 1\<rparr>)"
    by (simp add: demo_report_one_def)
  from c1 n1 c2 n2 demo_run_one_merged a b show ?thesis by simp
qed

text \<open>
  A timestamp that does not parse is not skipped: a merge request whose \<^verbatim>\<open>created_at\<close>
  is not a timestamp makes \<^verbatim>\<open>get_dora_metrics\<close> raise ValueError, and an open issue
  without \<^verbatim>\<open>created_at\<close> makes \<^verbatim>\<open>analyze_issues\<close> raise KeyError.
\<close>

theorem C3_counterexample:
  "get_dora_metrics demo_env (Some ''2024-01-01'') (Some ''2024-01-31'')
     Timeout Timeout (ok_list [mr_bad_date]) Timeout = Inl ValueError \<and>
   analyze_issues demo_env (ok_list [issue_no_created]) = Inl KeyError"
  by (simp add: dora_defs demo_defs ok_list_def mr_bad_date_def issue_no_created_def
        analyze_issues_def)

end
